theory Spec2Isabelle
  imports Complex_Main
begin

section \<open>MariaDB connection management (src/connection.ts)\<close>

text \<open>
  A shallow embedding of \<^verbatim>\<open>src/connection.ts\<close>. The two module variables
  \<^verbatim>\<open>pool\<close> and \<^verbatim>\<open>connection\<close> are fields of an explicit state that
  every operation takes and returns; every \<^verbatim>\<open>throw\<close> is an \<open>Inl\<close> result.
  The mariadb driver is not part of the module: its answers are parameters (a record of
  functions of the calls made so far), and every call the module makes to it is appended to
  a trace kept in the state. \<^verbatim>\<open>process.env\<close> is a map from names to strings.
  The validator \<^verbatim>\<open>isAlloowedQuery\<close> lives in another module and is a parameter.
  Output to \<^verbatim>\<open>console.error\<close> is not modelled.
\<close>

subsection \<open>Values\<close>

text \<open>
  A JavaScript number is a double: not-a-number, an infinity, or a finite rational
  (negative zero is not told apart from zero).
\<close>

datatype jsnum = NaN | PosInfinity | NegInfinity | Finite rat

text \<open>
  The values the driver hands back. \<open>Obj\<close> lists the own enumerable properties in the
  order of \<^verbatim>\<open>Object.keys\<close>; \<open>Arr\<close> is what \<^verbatim>\<open>Array.isArray\<close> accepts.
\<close>

datatype jsval =
    Undefined
  | Null
  | Bool bool
  | Num jsnum
  | Str string
  | BigInt int
  | Arr "jsval list"
  | Obj "(string \<times> jsval) list"

text \<open>
  Everything the module throws itself is a plain \<^verbatim>\<open>Error\<close> with a message. A
  \<open>TypeError\<close> is thrown by a built-in the module calls, a \<open>DriverError\<close> is what
  the driver throws or rejects with.
\<close>

datatype error = Error string | TypeError string | DriverError string

type_synonym env = "string \<rightharpoonup> string"

subsection \<open>Constants\<close>

definition DEFAULT_TIMEOUT :: nat where
  "DEFAULT_TIMEOUT = 10000"

definition DEFAULT_ROW_LIMIT :: nat where
  "DEFAULT_ROW_LIMIT = 1000"

text \<open>\<^verbatim>\<open>BigInt(Number.MAX_SAFE_INTEGER)\<close>, which is \<open>2 ^ 53 - 1\<close>.\<close>

definition MAX_SAFE :: int where
  "MAX_SAFE = 9007199254740991"

subsection \<open>Built-ins used by the module\<close>

text \<open>\<^verbatim>\<open>v.toString()\<close> of a bigint: its decimal digits, with a minus sign when negative.\<close>

function digits10 :: "int \<Rightarrow> string" where
  "digits10 n =
     (if n < 10 then [''0123456789'' ! nat n]
      else digits10 (n div 10) @ [''0123456789'' ! nat (n mod 10)])"
  by pat_completeness auto
termination
  by (relation "measure nat") auto

declare digits10.simps [simp del]

definition toString :: "int \<Rightarrow> string" where
  "toString v = (if v < 0 then CHR ''-'' # digits10 (- v) else digits10 v)"

text \<open>
  \<^verbatim>\<open>Number(v)\<close> of a bigint: the double nearest to \<open>v\<close>, ties to the even
  significand of 53 bits, an infinity from \<open>2 ^ 1024\<close> on. \<open>nearest_double\<close> rounds
  a magnitude.
\<close>

function bit_length :: "int \<Rightarrow> nat" where
  "bit_length a = (if a \<le> 0 then 0 else Suc (bit_length (a div 2)))"
  by pat_completeness auto
termination
  by (relation "measure nat") auto

declare bit_length.simps [simp del]

definition nearest_double :: "int \<Rightarrow> int" where
  "nearest_double a =
     (let n = bit_length a in
      if n \<le> 53 then a
      else
        let sh = n - 53;
            q = a div 2 ^ sh;
            r = a mod 2 ^ sh;
            half = 2 ^ (sh - 1);
            q' = (if half < r \<or> (r = half \<and> odd q) then q + 1 else q)
        in q' * 2 ^ sh)"

definition Number :: "int \<Rightarrow> jsnum" where
  "Number v =
     (let m = nearest_double \<bar>v\<bar> in
      if 2 ^ 1024 \<le> m then (if v < 0 then NegInfinity else PosInfinity)
      else Finite (of_int (if v < 0 then - m else m)))"

subsection \<open>Result normalisation\<close>

text \<open>
  \<^verbatim>\<open>convertScalar\<close>: a bigint becomes a number, after the range check when
  \<^verbatim>\<open>MARIADB_CHECK_NUMBER_RANGE\<close> is the string \<^verbatim>\<open>true\<close>; every other value is returned
  as it is.
\<close>

fun convertScalar :: "env \<Rightarrow> jsval \<Rightarrow> error + jsval" where
  "convertScalar env (BigInt v) =
     (if env ''MARIADB_CHECK_NUMBER_RANGE'' = Some ''true'' \<and> (MAX_SAFE < v \<or> v < - MAX_SAFE)
      then Inl (Error (''BIGINT out of safe JS range: '' @ toString v))
      else Inr (Num (Number v)))"
| "convertScalar env v = Inr v"

text \<open>
  The loop \<^verbatim>\<open>for (const k of Object.keys(row)) row[k] = convertScalar(row[k])\<close>:
  the properties in order, stopping at the first throw.
\<close>

fun convertFields :: "env \<Rightarrow> (string \<times> jsval) list \<Rightarrow> error + (string \<times> jsval) list" where
  "convertFields env [] = Inr []"
| "convertFields env ((k, v) # fs) =
     (case convertScalar env v of
        Inl e \<Rightarrow> Inl e
      | Inr v' \<Rightarrow>
          (case convertFields env fs of
             Inl e \<Rightarrow> Inl e
           | Inr fs' \<Rightarrow> Inr ((k, v') # fs')))"

text \<open>
  \<^verbatim>\<open>normalizeRow\<close>: an array is mapped element by element (\<open>normalizeRows\<close> is
  \<^verbatim>\<open>row.map(normalizeRow)\<close>, left to right, stopping at the first throw); a non-null
  object has each of its own properties passed through \<open>convertScalar\<close>; anything else
  is returned as it is.
\<close>

fun normalizeRow :: "env \<Rightarrow> jsval \<Rightarrow> error + jsval"
  and normalizeRows :: "env \<Rightarrow> jsval list \<Rightarrow> error + jsval list" where
  "normalizeRow env (Arr xs) =
     (case normalizeRows env xs of Inl e \<Rightarrow> Inl e | Inr ys \<Rightarrow> Inr (Arr ys))"
| "normalizeRow env (Obj fs) =
     (case convertFields env fs of Inl e \<Rightarrow> Inl e | Inr fs' \<Rightarrow> Inr (Obj fs'))"
| "normalizeRow env v = Inr v"
| "normalizeRows env [] = Inr []"
| "normalizeRows env (x # xs) =
     (case normalizeRow env x of
        Inl e \<Rightarrow> Inl e
      | Inr y \<Rightarrow>
          (case normalizeRows env xs of
             Inl e \<Rightarrow> Inl e
           | Inr ys \<Rightarrow> Inr (y # ys)))"


subsection \<open>Configuration from the environment\<close>

text \<open>
  \<^verbatim>\<open>parseInt(portStr, 10)\<close>: leading white space is skipped, then an optional sign,
  then the longest run of decimal digits; no digit gives \<open>NaN\<close>. A character of a
  \<open>string\<close> stands for the code unit of that number, which is below 256; the white space
  and line terminators of JavaScript in that range are the tab, the line feed, the vertical
  tab, the form feed, the carriage return, the space and the no-break space \<open>U+00A0\<close>.
\<close>

definition is_space :: "char \<Rightarrow> bool" where
  "is_space c \<longleftrightarrow>
     c \<in> set [CHR 0x09, CHR 0x0A, CHR 0x0B, CHR 0x0C, CHR 0x0D, CHR '' '', CHR 0xA0]"

definition is_digit :: "char \<Rightarrow> bool" where
  "is_digit c \<longleftrightarrow> c \<in> set ''0123456789''"

definition digit_value :: "char \<Rightarrow> int" where
  "digit_value c = of_char c - 48"

definition parseInt10 :: "string \<Rightarrow> jsnum" where
  "parseInt10 str =
     (let t = dropWhile is_space str;
          neg = (t \<noteq> [] \<and> hd t = CHR ''-'');
          u = (if t \<noteq> [] \<and> (hd t = CHR ''-'' \<or> hd t = CHR ''+'') then tl t else t);
          z = takeWhile is_digit u;
          n = foldl (\<lambda>a c. 10 * a + digit_value c) 0 z
      in if z = [] then NaN else Number (if neg then - n else n))"

text \<open>The object \<^verbatim>\<open>getConfigFromEnv\<close> returns (\<^verbatim>\<open>MariaDBConfig\<close>).\<close>

record MariaDBConfig =
  host :: string
  port :: jsnum
  user :: string
  password :: string
  database :: "string option"
  allow_insert :: bool
  allow_update :: bool
  allow_delete :: bool
  big_int_as_number :: bool
  decimal_as_number :: bool
  check_number_range :: bool

text \<open>\<^verbatim>\<open>!x\<close> for an environment variable: it is unset or the empty string.\<close>

definition falsy :: "string option \<Rightarrow> bool" where
  "falsy x \<longleftrightarrow> x = None \<or> x = Some []"

definition getConfigFromEnv :: "env \<Rightarrow> error + MariaDBConfig" where
  "getConfigFromEnv env =
     (let host = env ''MARIADB_HOST'';
          portStr = env ''MARIADB_PORT'';
          user = env ''MARIADB_USER'';
          password = env ''MARIADB_PASSWORD'';
          database = env ''MARIADB_DATABASE'';
          allow_insert = (env ''MARIADB_ALLOW_INSERT'' = Some ''true'');
          allow_update = (env ''MARIADB_ALLOW_UPDATE'' = Some ''true'');
          allow_delete = (env ''MARIADB_ALLOW_DELETE'' = Some ''true'');
          big_int_as_number = (env ''MARIADB_BIG_INT_AS_NUMBER'' = Some ''true'');
          decimal_as_number = (env ''MARIADB_DECIMAL_AS_NUMBER'' = Some ''true'');
          check_number_range = (env ''MARIADB_CHECK_NUMBER_RANGE'' = Some ''true'')
      in
      if falsy host then Inl (Error ''MARIADB_HOST environment variable is required'')
      else if falsy user then Inl (Error ''MARIADB_USER environment variable is required'')
      else if falsy password
      then Inl (Error ''MARIADB_PASSWORD environment variable is required'')
      else
        Inr \<lparr> host = the host,
              port = (if falsy portStr then Finite 3306 else parseInt10 (the portStr)),
              user = the user,
              password = the password,
              database = database,
              allow_insert = allow_insert,
              allow_update = allow_update,
              allow_delete = allow_delete,
              big_int_as_number = big_int_as_number,
              decimal_as_number = decimal_as_number,
              check_number_range = check_number_range \<rparr>)"

subsection \<open>The driver and the module state\<close>

type_synonym pool_id = nat
type_synonym conn_id = nat

text \<open>The options object handed to \<^verbatim>\<open>mariadb.createPool\<close>.\<close>

record pool_options =
  pool_host :: string
  pool_port :: jsnum
  pool_user :: string
  pool_password :: string
  pool_database :: "string option"
  connectionLimit :: nat
  connectTimeout :: nat
  bigIntAsNumber :: bool
  decimalAsNumber :: bool
  checkNumberRange :: bool

text \<open>
  The two shapes of the first argument of \<^verbatim>\<open>connection.query\<close> in the module: a bare
  SQL text, and an options object that goes with the bind values.
\<close>

record query_options =
  sql_text :: string
  namedPlaceholders :: bool
  metaAsArray :: bool
  timeout :: nat

datatype query_req = Text string | WithOptions query_options "jsval list"

text \<open>
  What \<^verbatim>\<open>connection.query\<close> resolves to: the value, and what reading its
  \<^verbatim>\<open>meta\<close> property gives (\<open>None\<close> when that is \<^verbatim>\<open>undefined\<close> or
  \<^verbatim>\<open>null\<close>).
\<close>

record query_result =
  resolved :: jsval
  meta :: "jsval option"

text \<open>
  The calls made to the driver, oldest first. \<open>CreatePool\<close> and \<open>GetConnection\<close>
  carry what came back: the new pool or lease, or \<open>None\<close> when the driver threw.
\<close>

datatype event =
    CreatePool pool_options "pool_id option"
  | GetConnection pool_id "conn_id option"
  | Query conn_id query_req
  | Release conn_id
  | PoolEnd pool_id

text \<open>
  The driver's answers, each a function of the calls made before. \<open>createPool\<close> answers
  \<open>Some msg\<close> when it throws; the others answer \<open>Inl msg\<close> when they reject.
\<close>

record driver =
  createPool :: "event list \<Rightarrow> pool_options \<Rightarrow> string option"
  getConnection :: "event list \<Rightarrow> pool_id \<Rightarrow> string + conn_id"
  query :: "event list \<Rightarrow> conn_id \<Rightarrow> query_req \<Rightarrow> string + query_result"

text \<open>The module variables \<^verbatim>\<open>pool\<close> and \<^verbatim>\<open>connection\<close>, and the trace.\<close>

record state =
  pool :: "pool_id option"
  connection :: "conn_id option"
  trace :: "event list"

definition initial :: state where
  "initial = \<lparr> pool = None, connection = None, trace = [] \<rparr>"

definition emit :: "event \<Rightarrow> state \<Rightarrow> state" where
  "emit ev s = s \<lparr> trace := trace s @ [ev] \<rparr>"

subsection \<open>createConnectionPool\<close>

text \<open>
  The configuration is read first, then the existing pool is looked for, then a pool is
  made. A new pool is named by the position of its \<open>CreatePool\<close> event in the trace, so
  two pools never share a name. \<open>poolOptions\<close> is the object literal of lines 51 to 62.
\<close>

definition poolOptions :: "MariaDBConfig \<Rightarrow> pool_options" where
  "poolOptions config =
     \<lparr> pool_host = host config,
       pool_port = port config,
       pool_user = user config,
       pool_password = password config,
       pool_database = database config,
       connectionLimit = 2,
       connectTimeout = DEFAULT_TIMEOUT,
       bigIntAsNumber = big_int_as_number config,
       decimalAsNumber = decimal_as_number config,
       checkNumberRange = check_number_range config \<rparr>"

definition createConnectionPool :: "env \<Rightarrow> driver \<Rightarrow> state \<Rightarrow> (error + pool_id) \<times> state" where
  "createConnectionPool env drv s =
     (case getConfigFromEnv env of
        Inl e \<Rightarrow> (Inl e, s)
      | Inr config \<Rightarrow>
          (case pool s of
             Some p \<Rightarrow> (Inr p, s)
           | None \<Rightarrow>
               (let opts = poolOptions config
                in case createPool drv (trace s) opts of
                     Some msg \<Rightarrow> (Inl (DriverError msg), emit (CreatePool opts None) s)
                   | None \<Rightarrow>
                       (let p = length (trace s)
                        in (Inr p, (emit (CreatePool opts (Some p)) s) \<lparr> pool := Some p \<rparr>)))))"


subsection \<open>executeQuery\<close>

text \<open>What \<^verbatim>\<open>executeQuery\<close> resolves to: \<^verbatim>\<open>{ rows, fields }\<close>.\<close>

record query_output =
  rows :: jsval
  fields_out :: jsval

text \<open>
  \<^verbatim>\<open>JSON.stringify\<close> throws a \<^verbatim>\<open>TypeError\<close> on a bigint anywhere in its argument.
  The success log line of \<^verbatim>\<open>executeQuery\<close> applies it to the bind values, inside the
  \<^verbatim>\<open>try\<close> block.
\<close>

fun stringify_throws :: "jsval \<Rightarrow> bool"
  and stringify_throws_list :: "jsval list \<Rightarrow> bool"
  and stringify_throws_fields :: "(string \<times> jsval) list \<Rightarrow> bool" where
  "stringify_throws (BigInt v) = True"
| "stringify_throws (Arr xs) = stringify_throws_list xs"
| "stringify_throws (Obj fs) = stringify_throws_fields fs"
| "stringify_throws v = False"
| "stringify_throws_list [] = False"
| "stringify_throws_list (x # xs) = (stringify_throws x \<or> stringify_throws_list xs)"
| "stringify_throws_fields [] = False"
| "stringify_throws_fields ((k, v) # fs) = (stringify_throws v \<or> stringify_throws_fields fs)"

text \<open>Lines 80 to 83: the pool is made when the module has none.\<close>

definition ensurePool :: "env \<Rightarrow> driver \<Rightarrow> state \<Rightarrow> (error + pool_id) \<times> state" where
  "ensurePool env drv s =
     (case pool s of
        Some p \<Rightarrow> (Inr p, s)
      | None \<Rightarrow>
          (case createConnectionPool env drv s of
             (Inl e, s') \<Rightarrow> (Inl e, s')
           | (Inr p, s') \<Rightarrow> (Inr p, s' \<lparr> pool := Some p \<rparr>)))"

text \<open>Lines 87 to 92: the held lease is used again, or one is taken from the pool.\<close>

definition acquire :: "driver \<Rightarrow> pool_id \<Rightarrow> state \<Rightarrow> (error + conn_id) \<times> state" where
  "acquire drv p s =
     (case connection s of
        Some c \<Rightarrow> (Inr c, s)
      | None \<Rightarrow>
          (case getConnection drv (trace s) p of
             Inl msg \<Rightarrow> (Inl (DriverError msg), emit (GetConnection p None) s)
           | Inr c \<Rightarrow> (Inr c, (emit (GetConnection p (Some c)) s) \<lparr> connection := Some c \<rparr>)))"

text \<open>
  Lines 95 to 98: \<^verbatim>\<open>if (database)\<close> holds for a string that is given and not empty.
\<close>

definition useDatabase :: "driver \<Rightarrow> conn_id \<Rightarrow> string option \<Rightarrow> state \<Rightarrow> (error + unit) \<times> state" where
  "useDatabase drv c db s =
     (if falsy db then (Inr (), s)
      else
        (let req = Text (''USE `'' @ the db @ ''`'')
         in case query drv (trace s) c req of
              Inl msg \<Rightarrow> (Inl (DriverError msg), emit (Query c req) s)
            | Inr r \<Rightarrow> (Inr (), emit (Query c req) s)))"

text \<open>Lines 100 to 112: the validator, then the statement with its bind values.\<close>

definition runStatement ::
  "(string \<Rightarrow> bool) \<Rightarrow> driver \<Rightarrow> conn_id \<Rightarrow> string \<Rightarrow> jsval list \<Rightarrow> state \<Rightarrow>
     (error + query_result) \<times> state" where
  "runStatement isAlloowedQuery drv c sql params s =
     (if \<not> isAlloowedQuery sql then (Inl (Error ''Query not allowed''), s)
      else
        (let req = WithOptions \<lparr> sql_text = sql, namedPlaceholders = True,
                                 metaAsArray = True, timeout = DEFAULT_TIMEOUT \<rparr> params
         in case query drv (trace s) c req of
              Inl msg \<Rightarrow> (Inl (DriverError msg), emit (Query c req) s)
            | Inr result \<Rightarrow> (Inr result, emit (Query c req) s)))"

text \<open>Lines 114 to 132: the field list, the row limit, normalisation, the log line.\<close>

definition buildResult :: "env \<Rightarrow> jsval list \<Rightarrow> query_result \<Rightarrow> error + query_output" where
  "buildResult env params result =
     (let rows = resolved result;
          fields = (case meta result of None \<Rightarrow> Arr [] | Some m \<Rightarrow> m);
          limitedRows =
            (case rows of
               Arr xs \<Rightarrow> if DEFAULT_ROW_LIMIT < length xs then Arr (take DEFAULT_ROW_LIMIT xs) else rows
             | _ \<Rightarrow> rows)
      in case normalizeRow env limitedRows of
           Inl e \<Rightarrow> Inl e
         | Inr normalizedRows \<Rightarrow>
             if stringify_throws (Arr params)
             then Inl (TypeError ''Do not know how to serialize a BigInt'')
             else Inr \<lparr> rows = normalizedRows, fields_out = fields \<rparr>)"

text \<open>The \<^verbatim>\<open>try\<close> block; the \<^verbatim>\<open>catch\<close> clause throws again what it caught.\<close>

definition tryBlock ::
  "(string \<Rightarrow> bool) \<Rightarrow> env \<Rightarrow> driver \<Rightarrow> pool_id \<Rightarrow> string \<Rightarrow> jsval list \<Rightarrow> string option \<Rightarrow>
     state \<Rightarrow> (error + query_output) \<times> state" where
  "tryBlock isAlloowedQuery env drv p sql params db s =
     (case acquire drv p s of
        (Inl e, s1) \<Rightarrow> (Inl e, s1)
      | (Inr c, s1) \<Rightarrow>
          (case useDatabase drv c db s1 of
             (Inl e, s2) \<Rightarrow> (Inl e, s2)
           | (Inr u, s2) \<Rightarrow>
               (case runStatement isAlloowedQuery drv c sql params s2 of
                  (Inl e, s3) \<Rightarrow> (Inl e, s3)
                | (Inr result, s3) \<Rightarrow> (buildResult env params result, s3))))"

text \<open>The \<^verbatim>\<open>finally\<close> block, lines 136 to 143.\<close>

definition releaseConnection :: "state \<Rightarrow> state" where
  "releaseConnection s =
     (case connection s of
        Some c \<Rightarrow> (emit (Release c) s) \<lparr> connection := None \<rparr>
      | None \<Rightarrow> s)"

definition executeQuery ::
  "(string \<Rightarrow> bool) \<Rightarrow> env \<Rightarrow> driver \<Rightarrow> string \<Rightarrow> jsval list \<Rightarrow> string option \<Rightarrow>
     state \<Rightarrow> (error + query_output) \<times> state" where
  "executeQuery isAlloowedQuery env drv sql params db s =
     (case ensurePool env drv s of
        (Inl e, s0) \<Rightarrow> (Inl e, s0)
      | (Inr p, s0) \<Rightarrow>
          (case tryBlock isAlloowedQuery env drv p sql params db s0 of
             (r, s1) \<Rightarrow> (r, releaseConnection s1)))"

subsection \<open>endConnection\<close>

text \<open>\<^verbatim>\<open>pool.end()\<close> is called when there is a pool; the variable is left as it is.\<close>

definition endConnection :: "state \<Rightarrow> state" where
  "endConnection s = (case pool s of Some p \<Rightarrow> emit (PoolEnd p) s | None \<Rightarrow> s)"

subsection \<open>Sequential histories and what is counted on a trace\<close>

text \<open>
  The states the module can be in between calls, when each call is made after the one
  before has returned: any environment, driver answers and arguments at every call.
\<close>

inductive reachable :: "state \<Rightarrow> bool" where
  reachable_initial: "reachable initial"
| reachable_create: "reachable s \<Longrightarrow> reachable (snd (createConnectionPool env drv s))"
| reachable_execute:
    "reachable s \<Longrightarrow> reachable (snd (executeQuery isAlloowedQuery env drv sql params db s))"
| reachable_end: "reachable s \<Longrightarrow> reachable (endConnection s)"

text \<open>Leases handed out and not yet released.\<close>

fun outstanding :: "event list \<Rightarrow> int" where
  "outstanding [] = 0"
| "outstanding (GetConnection p (Some c) # evs) = outstanding evs + 1"
| "outstanding (Release c # evs) = outstanding evs - 1"
| "outstanding (ev # evs) = outstanding evs"

text \<open>Pools the driver has made.\<close>

fun pools_created :: "event list \<Rightarrow> nat" where
  "pools_created [] = 0"
| "pools_created (CreatePool opts (Some p) # evs) = Suc (pools_created evs)"
| "pools_created (ev # evs) = pools_created evs"

text \<open>One when the module holds a lease, zero when it holds none.\<close>

definition held :: "state \<Rightarrow> int" where
  "held s = (case connection s of None \<Rightarrow> 0 | Some c \<Rightarrow> 1)"

text \<open>
  \<open>adds_no Q s s'\<close>: the trace of \<open>s'\<close> is the trace of \<open>s\<close> with further calls after
  it, none of them of the kind \<open>Q\<close>.
\<close>

definition adds_no :: "(event \<Rightarrow> bool) \<Rightarrow> state \<Rightarrow> state \<Rightarrow> bool" where
  "adds_no Q s s' \<longleftrightarrow> (\<exists>evs. trace s' = trace s @ evs \<and> \<not> list_ex Q evs)"

text \<open>A checkout: \<^verbatim>\<open>pool.getConnection()\<close> was called.\<close>

fun is_checkout :: "event \<Rightarrow> bool" where
  "is_checkout (GetConnection p r) = True"
| "is_checkout ev = False"

text \<open>The statement itself going out, as opposed to the database switch.\<close>

fun is_statement :: "event \<Rightarrow> bool" where
  "is_statement (Query c (WithOptions opts params)) = True"
| "is_statement ev = False"


subsection \<open>What normalisation is meant to reach\<close>

text \<open>
  A description of the walk that does not follow the code's control flow: arrays are entered
  at every depth; a record met on the way has each field that holds a wide integer replaced
  by its number; everything else stays, also a wide integer that stands in an array itself
  and whatever lies inside a field of a record.
\<close>

fun coerced :: "jsval \<Rightarrow> jsval" where
  "coerced (BigInt v) = Num (Number v)"
| "coerced v = v"

fun normalized_spec :: "jsval \<Rightarrow> jsval" where
  "normalized_spec (Arr xs) = Arr (map normalized_spec xs)"
| "normalized_spec (Obj fs) = Obj (map (apsnd coerced) fs)"
| "normalized_spec v = v"

text \<open>
  The wide integers that are the value of a field of a record reached through arrays only,
  in the order of the walk.
\<close>

fun bigints_of :: "jsval \<Rightarrow> int list" where
  "bigints_of (BigInt n) = [n]"
| "bigints_of v = []"

fun field_bigints :: "jsval \<Rightarrow> int list" where
  "field_bigints (Arr xs) = concat (map field_bigints xs)"
| "field_bigints (Obj fs) = concat (map (bigints_of \<circ> snd) fs)"
| "field_bigints v = []"

definition unsafe :: "int \<Rightarrow> bool" where
  "unsafe n \<longleftrightarrow> MAX_SAFE < \<bar>n\<bar>"

text \<open>The first wide integer on the walk that the range check refuses, when it is on.\<close>

definition first_refused :: "env \<Rightarrow> int list \<Rightarrow> int option" where
  "first_refused env ns =
     (if env ''MARIADB_CHECK_NUMBER_RANGE'' = Some ''true'' then find unsafe ns else None)"

subsection \<open>Sample environments, a sample driver and a sample validator\<close>

definition env_complete :: env where
  "env_complete =
     map_of [(''MARIADB_HOST'', ''localhost''), (''MARIADB_USER'', ''app''),
             (''MARIADB_PASSWORD'', ''secret'')]"

definition env_checked :: env where
  "env_checked =
     map_of [(''MARIADB_HOST'', ''localhost''), (''MARIADB_USER'', ''app''),
             (''MARIADB_PASSWORD'', ''secret''), (''MARIADB_CHECK_NUMBER_RANGE'', ''true'')]"

definition env_no_password :: env where
  "env_no_password = map_of [(''MARIADB_HOST'', ''localhost''), (''MARIADB_USER'', ''app'')]"

text \<open>A validator that lets a statement through when it starts with \<^verbatim>\<open>SELECT\<close>.\<close>

definition select_only :: "string \<Rightarrow> bool" where
  "select_only sql \<longleftrightarrow> take 6 sql = ''SELECT''"

text \<open>
  A driver that always makes the pool, refuses a lease from a pool that was ended and names
  a lease by the number of calls made before. Its answers have the shapes the connector
  gives: to a bare SQL text the packet of a statement without rows, and to a request with
  \<^verbatim>\<open>metaAsArray: true\<close> the pair \<^verbatim>\<open>[rows, meta]\<close> of the rows and the column list,
  here one row.
\<close>

definition pool_ended :: "pool_id \<Rightarrow> event list \<Rightarrow> bool" where
  "pool_ended p h \<longleftrightarrow> PoolEnd p \<in> set h"

definition ok_packet :: query_result where
  "ok_packet =
     \<lparr> resolved = Obj [(''affectedRows'', Num (Finite 0)), (''insertId'', BigInt 0),
                        (''warningStatus'', Num (Finite 0))],
       meta = None \<rparr>"

definition sample_columns :: jsval where
  "sample_columns = Arr [Obj [(''type'', Str ''BIGINT'')]]"

definition one_row :: query_result where
  "one_row =
     \<lparr> resolved = Arr [Arr [Obj [(''1'', Num (Finite 1))]], sample_columns], meta = None \<rparr>"

definition sample_getConnection :: "event list \<Rightarrow> pool_id \<Rightarrow> string + conn_id" where
  "sample_getConnection h p = (if pool_ended p h then Inl ''pool is closed'' else Inr (length h))"

definition sample_createPool :: "event list \<Rightarrow> pool_options \<Rightarrow> string option" where
  "sample_createPool h opts = None"

definition sample_query :: "event list \<Rightarrow> conn_id \<Rightarrow> query_req \<Rightarrow> string + query_result" where
  "sample_query h c req =
     (case req of Text t \<Rightarrow> Inr ok_packet | WithOptions opts ps \<Rightarrow> Inr one_row)"

definition sample_driver :: driver where
  "sample_driver =
     \<lparr> createPool = sample_createPool, getConnection = sample_getConnection,
       query = sample_query \<rparr>"

text \<open>The same driver with every query rejected, as a statement that ran out of time is.\<close>

definition failing_query :: "event list \<Rightarrow> conn_id \<Rightarrow> query_req \<Rightarrow> string + query_result" where
  "failing_query h c req = Inl ''Query execution was interrupted''"

definition failing_driver :: driver where
  "failing_driver =
     \<lparr> createPool = sample_createPool, getConnection = sample_getConnection,
       query = failing_query \<rparr>"

text \<open>The module after a first pool was made under \<open>env_complete\<close>.\<close>

definition sample_options :: pool_options where
  "sample_options =
     \<lparr> pool_host = ''localhost'', pool_port = Finite 3306, pool_user = ''app'',
       pool_password = ''secret'', pool_database = None, connectionLimit = 2,
       connectTimeout = 10000, bigIntAsNumber = False, decimalAsNumber = False,
       checkNumberRange = False \<rparr>"

definition installed :: state where
  "installed =
     \<lparr> pool = Some 0, connection = None, trace = [CreatePool sample_options (Some 0)] \<rparr>"

text \<open>The module while a call is under way: the lease 1 was taken and is held.\<close>

definition leased :: state where
  "leased =
     \<lparr> pool = Some 0, connection = Some 1,
       trace = [CreatePool sample_options (Some 0), GetConnection 0 (Some 1)] \<rparr>"

text \<open>
  The same driver answering every statement with 1500 rows, numbered in order, in the pair
  \<^verbatim>\<open>[rows, meta]\<close>.
\<close>

definition numbered_row :: "nat \<Rightarrow> jsval" where
  "numbered_row i = Obj [(''id'', BigInt (int i))]"

definition numbered_number :: "nat \<Rightarrow> jsval" where
  "numbered_number i = Obj [(''id'', Num (Finite (of_nat i)))]"

definition many_rows :: query_result where
  "many_rows =
     \<lparr> resolved = Arr [Arr (map numbered_row [0..<1500]), sample_columns], meta = None \<rparr>"

definition many_rows_query :: "event list \<Rightarrow> conn_id \<Rightarrow> query_req \<Rightarrow> string + query_result" where
  "many_rows_query h c req =
     (case req of Text t \<Rightarrow> Inr ok_packet | WithOptions opts ps \<Rightarrow> Inr many_rows)"

definition many_rows_driver :: driver where
  "many_rows_driver =
     \<lparr> createPool = sample_createPool, getConnection = sample_getConnection,
       query = many_rows_query \<rparr>"


section \<open>Properties\<close>

subsection \<open>Evaluating the built-ins\<close>

lemmas number_eval = Number_def nearest_double_def bit_length.simps Let_def

lemmas toString_eval = toString_def digits10.simps

lemmas env_eval = env_complete_def env_checked_def env_no_password_def

lemma abs_exceeds_MAX_SAFE: "MAX_SAFE < \<bar>v\<bar> \<longleftrightarrow> MAX_SAFE < v \<or> v < - MAX_SAFE"
  by (auto simp: MAX_SAFE_def)

subsection \<open>Normalisation\<close>

text \<open>
  C5. A wide integer whose magnitude is above \<open>MAX_SAFE\<close> makes \<open>convertScalar\<close>, and
  normalisation of a result that holds it in a row, fail with the error whose message ends
  in the decimal digits of the value when \<^verbatim>\<open>MARIADB_CHECK_NUMBER_RANGE\<close> is
  \<^verbatim>\<open>true\<close>; when the variable is anything else the same value becomes a number and
  nothing fails.
\<close>

theorem convertScalar_bigint_range:
  "(env ''MARIADB_CHECK_NUMBER_RANGE'' = Some ''true'' \<and> MAX_SAFE < \<bar>v\<bar> \<longrightarrow>
      convertScalar env (BigInt v) =
        Inl (Error (''BIGINT out of safe JS range: '' @ toString v)) \<and>
      normalizeRow env (Arr [Obj [(k, BigInt v)]]) =
        Inl (Error (''BIGINT out of safe JS range: '' @ toString v))) \<and>
   (env ''MARIADB_CHECK_NUMBER_RANGE'' \<noteq> Some ''true'' \<longrightarrow>
      convertScalar env (BigInt v) = Inr (Num (Number v)) \<and>
      normalizeRow env (Arr [Obj [(k, BigInt v)]]) = Inr (Arr [Obj [(k, Num (Number v))]]))"
  by (simp add: abs_exceeds_MAX_SAFE)

theorem convertScalar_bigint_range_witness:
  "convertScalar env_checked (BigInt 9007199254740992) =
     Inl (Error ''BIGINT out of safe JS range: 9007199254740992'') \<and>
   normalizeRow env_checked (Arr [Obj [(''id'', BigInt 9007199254740992)]]) =
     Inl (Error ''BIGINT out of safe JS range: 9007199254740992'') \<and>
   convertScalar env_complete (BigInt 9007199254740993) = Inr (Num (Finite 9007199254740992)) \<and>
   normalizeRow env_complete (Arr [Obj [(''id'', BigInt 9007199254740993)]]) =
     Inr (Arr [Obj [(''id'', Num (Finite 9007199254740992))]])"
proof -
  have on: "env_checked ''MARIADB_CHECK_NUMBER_RANGE'' = Some ''true''"
    by (simp add: env_checked_def)
  have off: "env_complete ''MARIADB_CHECK_NUMBER_RANGE'' \<noteq> Some ''true''"
    by (simp add: env_complete_def)
  have big: "MAX_SAFE < \<bar>9007199254740992 :: int\<bar>"
    by (simp add: MAX_SAFE_def)
  have msg: "toString 9007199254740992 = ''9007199254740992''"
    by (simp add: toString_eval)
  have num: "Number 9007199254740993 = Finite 9007199254740992"
    by (simp add: number_eval)
  from convertScalar_bigint_range [of env_checked 9007199254740992 "''id''"] on big msg
    convertScalar_bigint_range [of env_complete 9007199254740993 "''id''"] off num
  show ?thesis by simp
qed

text \<open>The code's walk against its description, with the first refused value.\<close>

lemma find_append_cases:
  "find P (xs @ ys) = (case find P xs of Some x \<Rightarrow> Some x | None \<Rightarrow> find P ys)"
  by (induction xs) auto

lemma first_refused_Nil: "first_refused env [] = None"
  by (simp add: first_refused_def)

lemma first_refused_append:
  "first_refused env (ms @ ns) =
     (case first_refused env ms of Some n \<Rightarrow> Some n | None \<Rightarrow> first_refused env ns)"
  by (auto simp: first_refused_def find_append_cases split: option.splits)

lemma first_refused_unchecked:
  "env ''MARIADB_CHECK_NUMBER_RANGE'' \<noteq> Some ''true'' \<Longrightarrow> first_refused env ns = None"
  by (simp add: first_refused_def)

lemma convertScalar_refused:
  "convertScalar env v =
     (case first_refused env (bigints_of v) of
        Some n \<Rightarrow> Inl (Error (''BIGINT out of safe JS range: '' @ toString n))
      | None \<Rightarrow> Inr (coerced v))"
  by (cases v) (auto simp: first_refused_def unsafe_def MAX_SAFE_def)

lemma convertFields_refused:
  "convertFields env fs =
     (case first_refused env (concat (map (bigints_of \<circ> snd) fs)) of
        Some n \<Rightarrow> Inl (Error (''BIGINT out of safe JS range: '' @ toString n))
      | None \<Rightarrow> Inr (map (apsnd coerced) fs))"
proof (induction fs)
  case Nil
  show ?case by (simp add: first_refused_Nil)
next
  case (Cons f fs)
  obtain k v where f: "f = (k, v)" by (cases f)
  show ?case
    by (simp add: f Cons.IH convertScalar_refused first_refused_append
        split: option.splits)
qed

lemma normalizeRow_refused:
  "normalizeRow env v =
     (case first_refused env (field_bigints v) of
        Some n \<Rightarrow> Inl (Error (''BIGINT out of safe JS range: '' @ toString n))
      | None \<Rightarrow> Inr (normalized_spec v))"
  and normalizeRows_refused:
  "normalizeRows env xs =
     (case first_refused env (concat (map field_bigints xs)) of
        Some n \<Rightarrow> Inl (Error (''BIGINT out of safe JS range: '' @ toString n))
      | None \<Rightarrow> Inr (map normalized_spec xs))"
proof (induction env v and env xs rule: normalizeRow_normalizeRows.induct)
  case (1 env xs)
  then show ?case by (simp split: option.splits)
next
  case (2 env fs)
  show ?case by (simp add: convertFields_refused split: option.splits)
next
  case (5 env x xs)
  then show ?case by (simp add: first_refused_append split: option.splits)
qed (simp_all add: first_refused_Nil)

lemma bigints_of_coerced: "bigints_of (coerced v) = []"
  by (cases v) simp_all

lemma field_bigints_normalized_spec: "field_bigints (normalized_spec v) = []"
proof (induction v rule: normalized_spec.induct)
  case (1 xs)
  then show ?case by (induction xs) simp_all
next
  case (2 fs)
  show ?case by (induction fs) (auto simp: bigints_of_coerced)
qed simp_all

lemma coerced_id: "bigints_of v = [] \<Longrightarrow> coerced v = v"
  by (cases v) simp_all

lemma normalized_spec_id: "field_bigints v = [] \<Longrightarrow> normalized_spec v = v"
proof (induction v rule: normalized_spec.induct)
  case (1 xs)
  then have "map normalized_spec xs = xs"
    by (intro map_idI) simp
  then show ?case by simp
next
  case (2 fs)
  then have "map (apsnd coerced) fs = fs"
    by (intro map_idI) (auto simp: coerced_id)
  then show ?case by simp
qed simp_all

text \<open>
  C8, as stated, fails: a wide integer that stands in an array itself (a row given as an
  ordered sequence), and one inside a record that is the value of a field, are left as they
  are, with the range check on or off.
\<close>

theorem normalizeRow_skips_counterexample:
  "normalizeRow env_checked (Arr [Arr [BigInt 9007199254740993]]) =
     Inr (Arr [Arr [BigInt 9007199254740993]]) \<and>
   normalizeRow env_complete (Arr [Obj [(''t'', Obj [(''id'', BigInt 5)])]]) =
     Inr (Arr [Obj [(''t'', Obj [(''id'', BigInt 5)])]])"
  by simp

text \<open>
  C8, amended. Normalisation enters arrays at every depth. In every record met this way each
  field that holds a wide integer gets the number for it, so that none is left in such a
  field; every other value is unchanged, a wide integer standing in an array itself or
  lying inside the value of a field included, and a structure without such a field is
  returned as it is. With the range check on, the walk fails at the first such field whose
  value is out of range; with the check off it never fails.
\<close>

theorem normalizeRow_reaches_record_fields:
  "normalizeRow env v =
     (case first_refused env (field_bigints v) of
        Some n \<Rightarrow> Inl (Error (''BIGINT out of safe JS range: '' @ toString n))
      | None \<Rightarrow> Inr (normalized_spec v)) \<and>
   field_bigints (normalized_spec v) = [] \<and>
   (env ''MARIADB_CHECK_NUMBER_RANGE'' \<noteq> Some ''true'' \<longrightarrow>
      normalizeRow env v = Inr (normalized_spec v)) \<and>
   (field_bigints v = [] \<longrightarrow> normalizeRow env v = Inr v)"
  by (simp add: normalizeRow_refused field_bigints_normalized_spec first_refused_unchecked
      first_refused_Nil normalized_spec_id)

theorem normalizeRow_reaches_record_fields_witness:
  "normalizeRow env_complete
     (Arr [Arr [Obj [(''id'', BigInt 7), (''name'', Str ''a'')]], BigInt 5,
           Obj [(''n'', Obj [(''m'', BigInt 1)]), (''k'', BigInt (- 2))]]) =
   Inr (Arr [Arr [Obj [(''id'', Num (Finite 7)), (''name'', Str ''a'')]], BigInt 5,
             Obj [(''n'', Obj [(''m'', BigInt 1)]), (''k'', Num (Finite (- 2)))]]) \<and>
   normalizeRow env_checked (Arr [Obj [(''name'', Str ''a''), (''n'', Null)], BigInt 5]) =
   Inr (Arr [Obj [(''name'', Str ''a''), (''n'', Null)], BigInt 5])"
proof -
  have off: "env_complete ''MARIADB_CHECK_NUMBER_RANGE'' \<noteq> Some ''true''"
    by (simp add: env_complete_def)
  have n7: "Number 7 = Finite 7" and n2: "Number (- 2) = Finite (- 2)"
    by (simp_all add: number_eval)
  from normalizeRow_reaches_record_fields [of env_complete
      "Arr [Arr [Obj [(''id'', BigInt 7), (''name'', Str ''a'')]], BigInt 5,
            Obj [(''n'', Obj [(''m'', BigInt 1)]), (''k'', BigInt (- 2))]]"] off
  have "normalizeRow env_complete
     (Arr [Arr [Obj [(''id'', BigInt 7), (''name'', Str ''a'')]], BigInt 5,
           Obj [(''n'', Obj [(''m'', BigInt 1)]), (''k'', BigInt (- 2))]]) =
     Inr (normalized_spec
       (Arr [Arr [Obj [(''id'', BigInt 7), (''name'', Str ''a'')]], BigInt 5,
             Obj [(''n'', Obj [(''m'', BigInt 1)]), (''k'', BigInt (- 2))]]))"
    by blast
  then have first: "normalizeRow env_complete
     (Arr [Arr [Obj [(''id'', BigInt 7), (''name'', Str ''a'')]], BigInt 5,
           Obj [(''n'', Obj [(''m'', BigInt 1)]), (''k'', BigInt (- 2))]]) =
   Inr (Arr [Arr [Obj [(''id'', Num (Finite 7)), (''name'', Str ''a'')]], BigInt 5,
             Obj [(''n'', Obj [(''m'', BigInt 1)]), (''k'', Num (Finite (- 2)))]])"
    by (simp add: n7 n2)
  have none: "field_bigints (Arr [Obj [(''name'', Str ''a''), (''n'', Null)], BigInt 5]) = []"
    by simp
  from normalizeRow_reaches_record_fields [of env_checked
      "Arr [Obj [(''name'', Str ''a''), (''n'', Null)], BigInt 5]"] none
  have "normalizeRow env_checked (Arr [Obj [(''name'', Str ''a''), (''n'', Null)], BigInt 5]) =
      Inr (Arr [Obj [(''name'', Str ''a''), (''n'', Null)], BigInt 5])"
    by blast
  with first show ?thesis by blast
qed

subsection \<open>Configuration\<close>

lemma getConfigFromEnv_missing:
  assumes "falsy (env ''MARIADB_HOST'') \<or> falsy (env ''MARIADB_USER'') \<or>
           falsy (env ''MARIADB_PASSWORD'')"
  shows "\<exists>name \<in> set [''MARIADB_HOST'', ''MARIADB_USER'', ''MARIADB_PASSWORD''].
           falsy (env name) \<and>
           getConfigFromEnv env = Inl (Error (name @ '' environment variable is required''))"
  using assms by (auto simp: getConfigFromEnv_def Let_def)

lemma getConfigFromEnv_present:
  assumes "\<not> falsy (env ''MARIADB_HOST'')" "\<not> falsy (env ''MARIADB_USER'')"
    "\<not> falsy (env ''MARIADB_PASSWORD'')"
  shows "getConfigFromEnv env =
     Inr \<lparr> host = the (env ''MARIADB_HOST''),
           port = (if falsy (env ''MARIADB_PORT'') then Finite 3306
                   else parseInt10 (the (env ''MARIADB_PORT''))),
           user = the (env ''MARIADB_USER''),
           password = the (env ''MARIADB_PASSWORD''),
           database = env ''MARIADB_DATABASE'',
           allow_insert = (env ''MARIADB_ALLOW_INSERT'' = Some ''true''),
           allow_update = (env ''MARIADB_ALLOW_UPDATE'' = Some ''true''),
           allow_delete = (env ''MARIADB_ALLOW_DELETE'' = Some ''true''),
           big_int_as_number = (env ''MARIADB_BIG_INT_AS_NUMBER'' = Some ''true''),
           decimal_as_number = (env ''MARIADB_DECIMAL_AS_NUMBER'' = Some ''true''),
           check_number_range = (env ''MARIADB_CHECK_NUMBER_RANGE'' = Some ''true'') \<rparr>"
  using assms by (simp add: getConfigFromEnv_def Let_def)

lemma createConnectionPool_config_error:
  "getConfigFromEnv env = Inl e \<Longrightarrow> createConnectionPool env drv s = (Inl e, s)"
  by (simp add: createConnectionPool_def)

lemma createConnectionPool_existing:
  "getConfigFromEnv env = Inr config \<Longrightarrow> pool s = Some p \<Longrightarrow>
     createConnectionPool env drv s = (Inr p, s)"
  by (simp add: createConnectionPool_def)

lemma createConnectionPool_new:
  "getConfigFromEnv env = Inr config \<Longrightarrow> pool s = None \<Longrightarrow>
   createPool drv (trace s) (poolOptions config) = None \<Longrightarrow>
     createConnectionPool env drv s =
       (Inr (length (trace s)),
        (emit (CreatePool (poolOptions config) (Some (length (trace s)))) s)
          \<lparr> pool := Some (length (trace s)) \<rparr>)"
  by (simp add: createConnectionPool_def Let_def)

lemma createConnectionPool_refused:
  "getConfigFromEnv env = Inr config \<Longrightarrow> pool s = None \<Longrightarrow>
   createPool drv (trace s) (poolOptions config) = Some msg \<Longrightarrow>
     createConnectionPool env drv s =
       (Inl (DriverError msg), emit (CreatePool (poolOptions config) None) s)"
  by (simp add: createConnectionPool_def Let_def)

lemma createConnectionPool_Inr_pool:
  "createConnectionPool env drv s = (Inr p, s') \<Longrightarrow> pool s' = Some p"
  by (auto simp: createConnectionPool_def Let_def emit_def split: sum.splits option.splits)

lemma ensurePool_config_error:
  "getConfigFromEnv env = Inl e \<Longrightarrow> pool s = None \<Longrightarrow> ensurePool env drv s = (Inl e, s)"
  by (simp add: ensurePool_def createConnectionPool_config_error)

lemma executeQuery_config_error:
  "getConfigFromEnv env = Inl e \<Longrightarrow> pool s = None \<Longrightarrow>
     executeQuery isAlloowedQuery env drv sql params db s = (Inl e, s)"
  by (simp add: executeQuery_def ensurePool_config_error)

text \<open>
  C9. When \<^verbatim>\<open>MARIADB_HOST\<close>, \<^verbatim>\<open>MARIADB_USER\<close> or \<^verbatim>\<open>MARIADB_PASSWORD\<close> is unset or
  empty, \<open>getConfigFromEnv\<close> fails with the error that names a missing variable;
  \<open>createConnectionPool\<close>, and \<open>executeQuery\<close> when the module has no pool, fail with
  the same error and leave the state as it was, so the driver was not called and no pool
  was made. When the three are set and not empty, it returns the configuration: the port is
  3306 when \<^verbatim>\<open>MARIADB_PORT\<close> is unset or empty, and a flag is true exactly when its
  variable is the string \<^verbatim>\<open>true\<close>.
\<close>

theorem getConfigFromEnv_required:
  "(falsy (env ''MARIADB_HOST'') \<or> falsy (env ''MARIADB_USER'') \<or>
    falsy (env ''MARIADB_PASSWORD'') \<longrightarrow>
      (\<exists>name \<in> set [''MARIADB_HOST'', ''MARIADB_USER'', ''MARIADB_PASSWORD''].
         falsy (env name) \<and>
         getConfigFromEnv env = Inl (Error (name @ '' environment variable is required'')) \<and>
         createConnectionPool env drv s =
           (Inl (Error (name @ '' environment variable is required'')), s) \<and>
         (pool s = None \<longrightarrow>
            executeQuery isAlloowedQuery env drv sql params db s =
              (Inl (Error (name @ '' environment variable is required'')), s)))) \<and>
   (\<not> falsy (env ''MARIADB_HOST'') \<and> \<not> falsy (env ''MARIADB_USER'') \<and>
    \<not> falsy (env ''MARIADB_PASSWORD'') \<longrightarrow>
      getConfigFromEnv env =
        Inr \<lparr> host = the (env ''MARIADB_HOST''),
              port = (if falsy (env ''MARIADB_PORT'') then Finite 3306
                      else parseInt10 (the (env ''MARIADB_PORT''))),
              user = the (env ''MARIADB_USER''),
              password = the (env ''MARIADB_PASSWORD''),
              database = env ''MARIADB_DATABASE'',
              allow_insert = (env ''MARIADB_ALLOW_INSERT'' = Some ''true''),
              allow_update = (env ''MARIADB_ALLOW_UPDATE'' = Some ''true''),
              allow_delete = (env ''MARIADB_ALLOW_DELETE'' = Some ''true''),
              big_int_as_number = (env ''MARIADB_BIG_INT_AS_NUMBER'' = Some ''true''),
              decimal_as_number = (env ''MARIADB_DECIMAL_AS_NUMBER'' = Some ''true''),
              check_number_range = (env ''MARIADB_CHECK_NUMBER_RANGE'' = Some ''true'') \<rparr>)"
proof (intro conjI impI)
  assume miss: "falsy (env ''MARIADB_HOST'') \<or> falsy (env ''MARIADB_USER'') \<or>
    falsy (env ''MARIADB_PASSWORD'')"
  from getConfigFromEnv_missing [OF miss]
  obtain name where name: "name \<in> set [''MARIADB_HOST'', ''MARIADB_USER'', ''MARIADB_PASSWORD'']"
    and f: "falsy (env name)"
    and e: "getConfigFromEnv env = Inl (Error (name @ '' environment variable is required''))"
    by blast
  show "\<exists>name \<in> set [''MARIADB_HOST'', ''MARIADB_USER'', ''MARIADB_PASSWORD''].
         falsy (env name) \<and>
         getConfigFromEnv env = Inl (Error (name @ '' environment variable is required'')) \<and>
         createConnectionPool env drv s =
           (Inl (Error (name @ '' environment variable is required'')), s) \<and>
         (pool s = None \<longrightarrow>
            executeQuery isAlloowedQuery env drv sql params db s =
              (Inl (Error (name @ '' environment variable is required'')), s))"
    using name f e createConnectionPool_config_error [OF e]
      executeQuery_config_error [OF e]
    by blast
next
  assume "\<not> falsy (env ''MARIADB_HOST'') \<and> \<not> falsy (env ''MARIADB_USER'') \<and>
    \<not> falsy (env ''MARIADB_PASSWORD'')"
  then show "getConfigFromEnv env =
        Inr \<lparr> host = the (env ''MARIADB_HOST''),
              port = (if falsy (env ''MARIADB_PORT'') then Finite 3306
                      else parseInt10 (the (env ''MARIADB_PORT''))),
              user = the (env ''MARIADB_USER''),
              password = the (env ''MARIADB_PASSWORD''),
              database = env ''MARIADB_DATABASE'',
              allow_insert = (env ''MARIADB_ALLOW_INSERT'' = Some ''true''),
              allow_update = (env ''MARIADB_ALLOW_UPDATE'' = Some ''true''),
              allow_delete = (env ''MARIADB_ALLOW_DELETE'' = Some ''true''),
              big_int_as_number = (env ''MARIADB_BIG_INT_AS_NUMBER'' = Some ''true''),
              decimal_as_number = (env ''MARIADB_DECIMAL_AS_NUMBER'' = Some ''true''),
              check_number_range = (env ''MARIADB_CHECK_NUMBER_RANGE'' = Some ''true'') \<rparr>"
    by (simp add: getConfigFromEnv_present)
qed

lemma getConfigFromEnv_env_complete:
  "getConfigFromEnv env_complete =
     Inr \<lparr> host = ''localhost'', port = Finite 3306, user = ''app'', password = ''secret'',
           database = None, allow_insert = False, allow_update = False, allow_delete = False,
           big_int_as_number = False, decimal_as_number = False, check_number_range = False \<rparr>"
  by (simp add: getConfigFromEnv_def env_complete_def falsy_def)

lemma getConfigFromEnv_env_no_password:
  "getConfigFromEnv env_no_password =
     Inl (Error ''MARIADB_PASSWORD environment variable is required'')"
  by (simp add: getConfigFromEnv_def env_no_password_def falsy_def)

theorem getConfigFromEnv_required_witness:
  "getConfigFromEnv env_no_password =
     Inl (Error ''MARIADB_PASSWORD environment variable is required'') \<and>
   createConnectionPool env_no_password sample_driver initial =
     (Inl (Error ''MARIADB_PASSWORD environment variable is required''), initial) \<and>
   executeQuery select_only env_no_password sample_driver ''SELECT 1'' [] None initial =
     (Inl (Error ''MARIADB_PASSWORD environment variable is required''), initial) \<and>
   getConfigFromEnv env_complete =
     Inr \<lparr> host = ''localhost'', port = Finite 3306, user = ''app'', password = ''secret'',
           database = None, allow_insert = False, allow_update = False, allow_delete = False,
           big_int_as_number = False, decimal_as_number = False, check_number_range = False \<rparr>"
proof -
  have miss: "falsy (env_no_password ''MARIADB_HOST'') \<or> falsy (env_no_password ''MARIADB_USER'') \<or>
    falsy (env_no_password ''MARIADB_PASSWORD'')"
    by (simp add: env_no_password_def falsy_def)
  have none: "pool initial = None"
    by (simp add: initial_def)
  from getConfigFromEnv_required [of env_no_password sample_driver initial select_only
      "''SELECT 1''" "[]" None] miss none
  obtain name where
    e: "getConfigFromEnv env_no_password =
          Inl (Error (name @ '' environment variable is required''))"
    and c: "createConnectionPool env_no_password sample_driver initial =
          (Inl (Error (name @ '' environment variable is required'')), initial)"
    and q: "executeQuery select_only env_no_password sample_driver ''SELECT 1'' [] None initial =
          (Inl (Error (name @ '' environment variable is required'')), initial)"
    by blast
  from e have name: "name @ '' environment variable is required'' =
      ''MARIADB_PASSWORD environment variable is required''"
    by (simp add: getConfigFromEnv_env_no_password)
  have present: "\<not> falsy (env_complete ''MARIADB_HOST'') \<and> \<not> falsy (env_complete ''MARIADB_USER'') \<and>
    \<not> falsy (env_complete ''MARIADB_PASSWORD'')"
    by (simp add: env_complete_def falsy_def)
  from getConfigFromEnv_required [of env_complete sample_driver initial select_only
      "''SELECT 1''" "[]" None] present
  have ok: "getConfigFromEnv env_complete =
        Inr \<lparr> host = the (env_complete ''MARIADB_HOST''),
              port = (if falsy (env_complete ''MARIADB_PORT'') then Finite 3306
                      else parseInt10 (the (env_complete ''MARIADB_PORT''))),
              user = the (env_complete ''MARIADB_USER''),
              password = the (env_complete ''MARIADB_PASSWORD''),
              database = env_complete ''MARIADB_DATABASE'',
              allow_insert = (env_complete ''MARIADB_ALLOW_INSERT'' = Some ''true''),
              allow_update = (env_complete ''MARIADB_ALLOW_UPDATE'' = Some ''true''),
              allow_delete = (env_complete ''MARIADB_ALLOW_DELETE'' = Some ''true''),
              big_int_as_number = (env_complete ''MARIADB_BIG_INT_AS_NUMBER'' = Some ''true''),
              decimal_as_number = (env_complete ''MARIADB_DECIMAL_AS_NUMBER'' = Some ''true''),
              check_number_range = (env_complete ''MARIADB_CHECK_NUMBER_RANGE'' = Some ''true'') \<rparr>"
    by blast
  from e c q name ok show ?thesis
    by (simp add: env_complete_def falsy_def)
qed

subsection \<open>Steps of a call: module variables, pools made, leases out\<close>

lemma outstanding_append: "outstanding (xs @ ys) = outstanding xs + outstanding ys"
  by (induction xs rule: outstanding.induct) simp_all

lemma pools_created_append: "pools_created (xs @ ys) = pools_created xs + pools_created ys"
  by (induction xs rule: pools_created.induct) simp_all

lemma trace_emit: "trace (emit ev s) = trace s @ [ev]"
  and pool_emit: "pool (emit ev s) = pool s"
  and connection_emit: "connection (emit ev s) = connection s"
  by (simp_all add: emit_def)

lemma held_simps:
  "held (s \<lparr> connection := None \<rparr>) = 0"
  "held (s \<lparr> connection := Some c \<rparr>) = 1"
  "held (s \<lparr> pool := q \<rparr>) = held s"
  "held (emit ev s) = held s"
  "connection s = None \<Longrightarrow> held s = 0"
  "connection s = Some c \<Longrightarrow> held s = 1"
  by (simp_all add: held_def emit_def)

text \<open>What each step of a call does to the module variables and to the counts.\<close>

lemma createConnectionPool_pools:
  assumes "createConnectionPool env drv s = (r, s')"
    and "pools_created (trace s) = (if pool s = None then 0 else 1)"
  shows "pools_created (trace s') = (if pool s' = None then 0 else 1)"
  using assms
  by (auto simp: createConnectionPool_def Let_def trace_emit pool_emit pools_created_append
      split: sum.splits option.splits)

lemma createConnectionPool_result:
  assumes "createConnectionPool env drv s = (r, s')"
  shows "connection s' = connection s"
    and "outstanding (trace s') = outstanding (trace s)"
    and "r = Inr p \<Longrightarrow> pool s' = Some p"
  using assms
  by (auto simp: createConnectionPool_def Let_def trace_emit pool_emit connection_emit
      outstanding_append split: sum.splits option.splits)

lemma ensurePool_cases:
  assumes "ensurePool env drv s = (r, s')"
  obtains (existing) p where "pool s = Some p" "r = Inr p" "s' = s"
  | (created) "pool s = None" "createConnectionPool env drv s = (r, s')"
proof (cases "pool s")
  case None
  obtain r1 s1 where c: "createConnectionPool env drv s = (r1, s1)"
    by (cases "createConnectionPool env drv s")
  have "r1 = r \<and> s1 = s'"
  proof (cases r1)
    case (Inl e)
    with assms None c show ?thesis by (simp add: ensurePool_def)
  next
    case (Inr p)
    with c have "pool s1 = Some p" by (simp add: createConnectionPool_result(3))
    then have "s1 \<lparr> pool := Some p \<rparr> = s1" by (cases s1) simp
    with assms None c Inr show ?thesis by (simp add: ensurePool_def)
  qed
  with c have "createConnectionPool env drv s = (r, s')" by simp
  with None show ?thesis by (rule created)
next
  case (Some p)
  with assms have "r = Inr p" "s' = s" by (simp_all add: ensurePool_def)
  with Some show ?thesis by (rule existing)
qed

lemma ensurePool_result:
  assumes "ensurePool env drv s = (r, s')"
  shows "connection s' = connection s"
    and "outstanding (trace s') = outstanding (trace s)"
    and "r = Inr p \<Longrightarrow> pool s' = Some p"
    and "pools_created (trace s) = (if pool s = None then 0 else 1) \<Longrightarrow>
         pools_created (trace s') = (if pool s' = None then 0 else 1)"
  using assms
  by (cases rule: ensurePool_cases;
      simp add: createConnectionPool_result createConnectionPool_pools)+

lemma acquire_result:
  assumes "acquire drv p s = (r, s')"
  shows "pool s' = pool s"
    and "pools_created (trace s') = pools_created (trace s)"
    and "outstanding (trace s') - held s' = outstanding (trace s) - held s"
    and "r = Inr c \<Longrightarrow> connection s' = Some c"
    and "r = Inl e \<Longrightarrow> connection s' = None"
  using assms
  by (auto simp: acquire_def trace_emit pool_emit connection_emit held_def
      outstanding_append pools_created_append split: sum.splits option.splits)

lemma useDatabase_result:
  assumes "useDatabase drv c db s = (r, s')"
  shows "pool s' = pool s"
    and "pools_created (trace s') = pools_created (trace s)"
    and "outstanding (trace s') = outstanding (trace s)"
    and "connection s' = connection s"
  using assms
  by (auto simp: useDatabase_def Let_def trace_emit pool_emit connection_emit
      outstanding_append pools_created_append split: sum.splits if_splits)

lemma runStatement_result:
  assumes "runStatement f drv c sql params s = (r, s')"
  shows "pool s' = pool s"
    and "pools_created (trace s') = pools_created (trace s)"
    and "outstanding (trace s') = outstanding (trace s)"
    and "connection s' = connection s"
  using assms
  by (auto simp: runStatement_def Let_def trace_emit pool_emit connection_emit
      outstanding_append pools_created_append split: sum.splits if_splits)

lemma releaseConnection_result:
  shows "pool (releaseConnection s) = pool s"
    and "pools_created (trace (releaseConnection s)) = pools_created (trace s)"
    and "outstanding (trace (releaseConnection s)) = outstanding (trace s) - held s"
    and "connection (releaseConnection s) = None"
  by (auto simp: releaseConnection_def trace_emit pool_emit connection_emit held_def
      outstanding_append pools_created_append split: option.splits)

lemma tryBlock_cases:
  assumes "tryBlock f env drv p sql params db s = (r, s')"
  obtains (acquire_failed) e where "acquire drv p s = (Inl e, s')" "r = Inl e"
  | (use_failed) c s1 e where "acquire drv p s = (Inr c, s1)"
      "useDatabase drv c db s1 = (Inl e, s')" "r = Inl e"
  | (run_failed) c s1 s2 e where "acquire drv p s = (Inr c, s1)"
      "useDatabase drv c db s1 = (Inr (), s2)"
      "runStatement f drv c sql params s2 = (Inl e, s')" "r = Inl e"
  | (ran) c s1 s2 result where "acquire drv p s = (Inr c, s1)"
      "useDatabase drv c db s1 = (Inr (), s2)"
      "runStatement f drv c sql params s2 = (Inr result, s')"
      "r = buildResult env params result"
  using assms that
  by (auto simp: tryBlock_def split: prod.splits sum.splits)

lemma tryBlock_result:
  assumes "tryBlock f env drv p sql params db s = (r, s')"
  shows "pool s' = pool s"
    and "pools_created (trace s') = pools_created (trace s)"
    and "outstanding (trace s') - held s' = outstanding (trace s) - held s"
  using assms
proof (atomize (full), cases rule: tryBlock_cases)
  case (acquire_failed e)
  then show "pool s' = pool s \<and> pools_created (trace s') = pools_created (trace s) \<and>
    outstanding (trace s') - held s' = outstanding (trace s) - held s"
    by (simp add: acquire_result)
next
  case (use_failed c s1 e)
  from acquire_result(1,2,3) [OF use_failed(1)] useDatabase_result [OF use_failed(2)]
  show "pool s' = pool s \<and> pools_created (trace s') = pools_created (trace s) \<and>
    outstanding (trace s') - held s' = outstanding (trace s) - held s"
    by (simp add: held_def)
next
  case (run_failed c s1 s2 e)
  from acquire_result(1,2,3) [OF run_failed(1)] useDatabase_result [OF run_failed(2)]
    runStatement_result [OF run_failed(3)]
  show "pool s' = pool s \<and> pools_created (trace s') = pools_created (trace s) \<and>
    outstanding (trace s') - held s' = outstanding (trace s) - held s"
    by (simp add: held_def)
next
  case (ran c s1 s2 result)
  from acquire_result(1,2,3) [OF ran(1)] useDatabase_result [OF ran(2)]
    runStatement_result [OF ran(3)]
  show "pool s' = pool s \<and> pools_created (trace s') = pools_created (trace s) \<and>
    outstanding (trace s') - held s' = outstanding (trace s) - held s"
    by (simp add: held_def)
qed

lemma executeQuery_result:
  assumes "executeQuery f env drv sql params db s = (r, s')"
  shows "pools_created (trace s) = (if pool s = None then 0 else 1) \<Longrightarrow>
         pools_created (trace s') = (if pool s' = None then 0 else 1)"
    and "outstanding (trace s') - held s' = outstanding (trace s) - held s"
    and "connection s = None \<Longrightarrow> connection s' = None"
proof -
  obtain r0 s0 where e: "ensurePool env drv s = (r0, s0)" by (cases "ensurePool env drv s")
  note E = ensurePool_result [OF e]
  have h0: "held s0 = held s" using E(1) by (simp add: held_def)
  show "connection s = None \<Longrightarrow> connection s' = None"
    using assms e E(1)
    by (auto simp: executeQuery_def releaseConnection_result split: sum.splits prod.splits)
  show "outstanding (trace s') - held s' = outstanding (trace s) - held s"
  proof (cases r0)
    case (Inl err)
    with assms e have "s' = s0" by (simp add: executeQuery_def)
    with E(2) h0 show ?thesis by simp
  next
    case (Inr p)
    obtain r1 s1 where t: "tryBlock f env drv p sql params db s0 = (r1, s1)"
      by (cases "tryBlock f env drv p sql params db s0")
    from assms e Inr t have s': "s' = releaseConnection s1" by (simp add: executeQuery_def)
    from tryBlock_result(3) [OF t] E(2) h0 show ?thesis
      by (simp add: s' releaseConnection_result held_simps)
  qed
  show "pools_created (trace s) = (if pool s = None then 0 else 1) \<Longrightarrow>
         pools_created (trace s') = (if pool s' = None then 0 else 1)"
  proof (cases r0)
    case (Inl err)
    assume "pools_created (trace s) = (if pool s = None then 0 else 1)"
    moreover from Inl assms e have "s' = s0" by (simp add: executeQuery_def)
    ultimately show ?thesis using E(4) by simp
  next
    case (Inr p)
    assume j: "pools_created (trace s) = (if pool s = None then 0 else 1)"
    obtain r1 s1 where t: "tryBlock f env drv p sql params db s0 = (r1, s1)"
      by (cases "tryBlock f env drv p sql params db s0")
    from assms e Inr t have s': "s' = releaseConnection s1" by (simp add: executeQuery_def)
    from tryBlock_result(1,2) [OF t] E(4) [OF j] show ?thesis
      by (simp add: s' releaseConnection_result)
  qed
qed

lemma endConnection_result:
  shows "pool (endConnection s) = pool s"
    and "pools_created (trace (endConnection s)) = pools_created (trace s)"
    and "outstanding (trace (endConnection s)) = outstanding (trace s)"
    and "connection (endConnection s) = connection s"
  by (auto simp: endConnection_def trace_emit pool_emit connection_emit
      outstanding_append pools_created_append split: option.splits)

lemma reachable_invariant:
  assumes "reachable s"
  shows "connection s = None \<and> outstanding (trace s) = 0 \<and>
         pools_created (trace s) = (if pool s = None then 0 else 1)"
  using assms
proof (induction rule: reachable.induct)
  case reachable_initial
  show ?case by (simp add: initial_def)
next
  case (reachable_create s env drv)
  obtain r s' where c: "createConnectionPool env drv s = (r, s')"
    by (cases "createConnectionPool env drv s")
  from createConnectionPool_result(1,2) [OF c] createConnectionPool_pools [OF c]
    reachable_create.IH
  show ?case by (simp add: c)
next
  case (reachable_execute s f env drv sql params db)
  obtain r s' where q: "executeQuery f env drv sql params db s = (r, s')"
    by (cases "executeQuery f env drv sql params db s")
  from executeQuery_result [OF q] reachable_execute.IH
  show ?case by (simp add: q held_simps)
next
  case (reachable_end s)
  then show ?case by (simp add: endConnection_result)
qed

subsection \<open>createConnectionPool\<close>

lemma createConnectionPool_initial:
  "createConnectionPool env_complete sample_driver initial = (Inr 0, installed)"
  by (simp add: createConnectionPool_def getConfigFromEnv_env_complete initial_def
      sample_driver_def sample_createPool_def poolOptions_def DEFAULT_TIMEOUT_def
      emit_def installed_def sample_options_def Let_def)

lemma reachable_installed: "reachable installed"
  using reachable_create [OF reachable_initial, of env_complete sample_driver]
  by (simp add: createConnectionPool_initial)

text \<open>
  C10. \<open>createConnectionPool\<close> reads the configuration before it looks for a pool: with
  \<^verbatim>\<open>MARIADB_HOST\<close>, \<^verbatim>\<open>MARIADB_USER\<close> or \<^verbatim>\<open>MARIADB_PASSWORD\<close> unset or empty it
  fails with the error that names a missing variable also when the module has a pool; the
  pool is not returned, and the state, the pool variable in it, is what it was.
\<close>

theorem createConnectionPool_config_first:
  assumes "falsy (env ''MARIADB_HOST'') \<or> falsy (env ''MARIADB_USER'') \<or>
           falsy (env ''MARIADB_PASSWORD'')"
    and "pool s = Some p"
  shows "(\<exists>name \<in> set [''MARIADB_HOST'', ''MARIADB_USER'', ''MARIADB_PASSWORD''].
            falsy (env name) \<and>
            fst (createConnectionPool env drv s) =
              Inl (Error (name @ '' environment variable is required''))) \<and>
         fst (createConnectionPool env drv s) \<noteq> Inr p \<and>
         snd (createConnectionPool env drv s) = s \<and>
         pool (snd (createConnectionPool env drv s)) = Some p"
proof -
  from getConfigFromEnv_missing [OF assms(1)]
  obtain name where name: "name \<in> set [''MARIADB_HOST'', ''MARIADB_USER'', ''MARIADB_PASSWORD'']"
    and f: "falsy (env name)"
    and e: "getConfigFromEnv env = Inl (Error (name @ '' environment variable is required''))"
    by blast
  from createConnectionPool_config_error [OF e]
  have c: "createConnectionPool env drv s =
      (Inl (Error (name @ '' environment variable is required'')), s)" .
  from name f c assms(2) show ?thesis by auto
qed

theorem createConnectionPool_config_first_witness:
  "pool installed = Some 0 \<and>
   createConnectionPool env_no_password sample_driver installed =
     (Inl (Error ''MARIADB_PASSWORD environment variable is required''), installed)"
proof -
  have miss: "falsy (env_no_password ''MARIADB_HOST'') \<or> falsy (env_no_password ''MARIADB_USER'') \<or>
    falsy (env_no_password ''MARIADB_PASSWORD'')"
    by (simp add: env_no_password_def falsy_def)
  have p: "pool installed = Some 0"
    by (simp add: installed_def)
  from createConnectionPool_config_first [OF miss p, of sample_driver]
  obtain name where
    n: "name \<in> set [''MARIADB_HOST'', ''MARIADB_USER'', ''MARIADB_PASSWORD'']"
    and f: "falsy (env_no_password name)"
    and r: "fst (createConnectionPool env_no_password sample_driver installed) =
              Inl (Error (name @ '' environment variable is required''))"
    and s: "snd (createConnectionPool env_no_password sample_driver installed) = installed"
    by blast
  from n f have "name = ''MARIADB_PASSWORD''"
    by (auto simp: env_no_password_def falsy_def)
  with r s p show ?thesis
    by (simp add: prod_eq_iff)
qed

text \<open>
  C7, as stated, fails: the module has a pool, made by a first call, and a call under an
  environment without \<^verbatim>\<open>MARIADB_PASSWORD\<close> throws instead of returning it.
\<close>

theorem createConnectionPool_existing_counterexample:
  "reachable installed \<and> pool installed = Some 0 \<and>
   fst (createConnectionPool env_no_password sample_driver installed) =
     Inl (Error ''MARIADB_PASSWORD environment variable is required'')"
proof (intro conjI)
  show "reachable installed"
    by (rule reachable_installed)
  show "pool installed = Some 0"
    by (simp add: installed_def)
  show "fst (createConnectionPool env_no_password sample_driver installed) =
     Inl (Error ''MARIADB_PASSWORD environment variable is required'')"
    by (simp add: createConnectionPool_config_error getConfigFromEnv_env_no_password)
qed

lemma createConnectionPool_Inr_config:
  "createConnectionPool env drv s = (Inr p, s') \<Longrightarrow> \<exists>config. getConfigFromEnv env = Inr config"
  by (cases "getConfigFromEnv env") (simp_all add: createConnectionPool_def)

text \<open>
  C7, amended. \<open>createConnectionPool\<close> returns the pool the module has, and changes
  nothing, when the required settings are in the environment at the call. When the module
  has no pool and the driver makes one, that pool is installed, made with
  \<open>connectTimeout\<close> 10000 milliseconds and \<open>connectionLimit\<close> 2. Of two calls under the
  same environment the first of which returns a pool, the second returns that pool and
  changes nothing, whatever the driver would answer: it makes no pool.
\<close>

theorem createConnectionPool_idempotent:
  "(getConfigFromEnv env = Inr config \<and> pool s = Some p \<longrightarrow>
      createConnectionPool env drv s = (Inr p, s)) \<and>
   (getConfigFromEnv env = Inr config \<and> pool s = None \<and>
    createPool drv (trace s) (poolOptions config) = None \<longrightarrow>
      createConnectionPool env drv s =
        (Inr (length (trace s)),
         s \<lparr> pool := Some (length (trace s)),
             trace := trace s @ [CreatePool (poolOptions config) (Some (length (trace s)))] \<rparr>) \<and>
      connectTimeout (poolOptions config) = 10000 \<and>
      connectionLimit (poolOptions config) = 2) \<and>
   (createConnectionPool env drv s = (Inr p, s') \<longrightarrow>
      createConnectionPool env drv' s' = (Inr p, s'))"
proof (intro conjI impI)
  assume "getConfigFromEnv env = Inr config \<and> pool s = Some p"
  then show "createConnectionPool env drv s = (Inr p, s)"
    by (simp add: createConnectionPool_existing)
next
  assume a: "getConfigFromEnv env = Inr config \<and> pool s = None \<and>
    createPool drv (trace s) (poolOptions config) = None"
  then show "createConnectionPool env drv s =
        (Inr (length (trace s)),
         s \<lparr> pool := Some (length (trace s)),
             trace := trace s @ [CreatePool (poolOptions config) (Some (length (trace s)))] \<rparr>)"
    by (simp add: createConnectionPool_new emit_def)
  show "connectTimeout (poolOptions config) = 10000"
    by (simp add: poolOptions_def DEFAULT_TIMEOUT_def)
  show "connectionLimit (poolOptions config) = 2"
    by (simp add: poolOptions_def)
next
  assume a: "createConnectionPool env drv s = (Inr p, s')"
  from createConnectionPool_Inr_config [OF a]
  obtain config' where c: "getConfigFromEnv env = Inr config'" by blast
  from createConnectionPool_Inr_pool [OF a] have "pool s' = Some p" .
  with c show "createConnectionPool env drv' s' = (Inr p, s')"
    by (simp add: createConnectionPool_existing)
qed

theorem createConnectionPool_idempotent_witness:
  "createConnectionPool env_complete sample_driver initial = (Inr 0, installed) \<and>
   connectTimeout sample_options = 10000 \<and> connectionLimit sample_options = 2 \<and>
   createConnectionPool env_complete sample_driver installed = (Inr 0, installed) \<and>
   createConnectionPool env_complete failing_driver installed = (Inr 0, installed)"
proof -
  let ?config = "\<lparr> host = ''localhost'', port = Finite 3306, user = ''app'', password = ''secret'',
           database = None, allow_insert = False, allow_update = False, allow_delete = False,
           big_int_as_number = False, decimal_as_number = False, check_number_range = False \<rparr>"
  have cfg: "getConfigFromEnv env_complete = Inr ?config"
    by (rule getConfigFromEnv_env_complete)
  have opts: "poolOptions ?config = sample_options"
    by (simp add: poolOptions_def sample_options_def DEFAULT_TIMEOUT_def)
  have none: "pool initial = None" and tr: "trace initial = []"
    by (simp_all add: initial_def)
  have make: "createPool sample_driver (trace initial) (poolOptions ?config) = None"
    by (simp add: sample_driver_def sample_createPool_def)
  have inst: "initial \<lparr> pool := Some 0, trace := [CreatePool sample_options (Some 0)] \<rparr> = installed"
    by (simp add: initial_def installed_def)
  note w = createConnectionPool_idempotent [of env_complete ?config initial 0 sample_driver
      installed failing_driver]
  from w cfg none make have first: "createConnectionPool env_complete sample_driver initial =
      (Inr 0, installed)"
    by (simp add: tr opts inst)
  from w cfg none make have lim: "connectTimeout sample_options = 10000 \<and>
      connectionLimit sample_options = 2"
    by (simp add: opts)
  from w first have second: "createConnectionPool env_complete failing_driver installed =
      (Inr 0, installed)"
    by blast
  have inst_pool: "pool installed = Some 0"
    by (simp add: installed_def)
  note w' = createConnectionPool_idempotent [of env_complete ?config installed 0 sample_driver
      installed sample_driver]
  from w' cfg inst_pool have existing: "createConnectionPool env_complete sample_driver
      installed = (Inr 0, installed)"
    by blast
  from first lim second existing show ?thesis by simp
qed

subsection \<open>executeQuery: leases\<close>

lemmas sample_eval = sample_driver_def sample_createPool_def sample_getConnection_def
  sample_query_def pool_ended_def one_row_def ok_packet_def sample_columns_def

lemma executeQuery_installed:
  "executeQuery select_only env_complete sample_driver ''SELECT 1'' [] None installed =
     (Inr \<lparr> rows = Arr [Arr [Obj [(''1'', Num (Finite 1))]], sample_columns],
            fields_out = Arr [] \<rparr>,
      \<lparr> pool = Some 0, connection = None,
        trace = [CreatePool sample_options (Some 0), GetConnection 0 (Some 1),
                 Query 1 (WithOptions \<lparr> sql_text = ''SELECT 1'', namedPlaceholders = True,
                                        metaAsArray = True, timeout = 10000 \<rparr> []),
                 Release 1] \<rparr>)"
  by (simp add: executeQuery_def ensurePool_def tryBlock_def acquire_def useDatabase_def
      runStatement_def buildResult_def releaseConnection_def emit_def installed_def
      sample_eval select_only_def falsy_def DEFAULT_TIMEOUT_def DEFAULT_ROW_LIMIT_def Let_def)

lemma executeQuery_installed_rejected:
  "executeQuery select_only env_complete sample_driver ''DELETE FROM t'' [] (Some ''shop'')
     installed =
     (Inl (Error ''Query not allowed''),
      \<lparr> pool = Some 0, connection = None,
        trace = [CreatePool sample_options (Some 0), GetConnection 0 (Some 1),
                 Query 1 (Text ''USE `shop`''), Release 1] \<rparr>)"
  by (simp add: executeQuery_def ensurePool_def tryBlock_def acquire_def useDatabase_def
      runStatement_def releaseConnection_def emit_def installed_def
      sample_eval select_only_def falsy_def Let_def)

lemma executeQuery_installed_failing:
  "executeQuery select_only env_complete failing_driver ''SELECT 1'' [] None installed =
     (Inl (DriverError ''Query execution was interrupted''),
      \<lparr> pool = Some 0, connection = None,
        trace = [CreatePool sample_options (Some 0), GetConnection 0 (Some 1),
                 Query 1 (WithOptions \<lparr> sql_text = ''SELECT 1'', namedPlaceholders = True,
                                        metaAsArray = True, timeout = 10000 \<rparr> []),
                 Release 1] \<rparr>)"
  by (simp add: executeQuery_def ensurePool_def tryBlock_def acquire_def useDatabase_def
      runStatement_def releaseConnection_def emit_def installed_def
      failing_driver_def failing_query_def sample_eval select_only_def falsy_def
      DEFAULT_TIMEOUT_def Let_def)

text \<open>
  C2. In every sequential history, whatever the environment, the driver's answers and the
  arguments, and so on every way out of \<open>executeQuery\<close>, the module holds no lease when
  the call has returned, and as many leases are out as before the call.
\<close>

theorem executeQuery_releases_lease:
  assumes "reachable s"
  shows "connection (snd (executeQuery isAlloowedQuery env drv sql params db s)) = None \<and>
         outstanding (trace (snd (executeQuery isAlloowedQuery env drv sql params db s))) =
           outstanding (trace s)"
proof -
  obtain r s' where q: "executeQuery isAlloowedQuery env drv sql params db s = (r, s')"
    by (cases "executeQuery isAlloowedQuery env drv sql params db s")
  from reachable_invariant [OF assms] have c: "connection s = None" by simp
  from executeQuery_result(2,3) [OF q] c show ?thesis
    by (simp add: q held_simps)
qed

text \<open>A success, a rejected statement and a failed execution, each with its trace.\<close>

theorem executeQuery_releases_lease_witness:
  "connection (snd (executeQuery select_only env_complete sample_driver ''SELECT 1'' [] None
     installed)) = None \<and>
   outstanding (trace (snd (executeQuery select_only env_complete sample_driver ''SELECT 1'' []
     None installed))) = outstanding (trace installed) \<and>
   trace (snd (executeQuery select_only env_complete sample_driver ''SELECT 1'' [] None
     installed)) =
     [CreatePool sample_options (Some 0), GetConnection 0 (Some 1),
      Query 1 (WithOptions \<lparr> sql_text = ''SELECT 1'', namedPlaceholders = True,
                             metaAsArray = True, timeout = 10000 \<rparr> []),
      Release 1] \<and>
   connection (snd (executeQuery select_only env_complete sample_driver ''DELETE FROM t'' []
     (Some ''shop'') installed)) = None \<and>
   outstanding (trace (snd (executeQuery select_only env_complete sample_driver
     ''DELETE FROM t'' [] (Some ''shop'') installed))) = outstanding (trace installed) \<and>
   fst (executeQuery select_only env_complete sample_driver ''DELETE FROM t'' []
     (Some ''shop'') installed) = Inl (Error ''Query not allowed'') \<and>
   connection (snd (executeQuery select_only env_complete failing_driver ''SELECT 1'' [] None
     installed)) = None \<and>
   outstanding (trace (snd (executeQuery select_only env_complete failing_driver ''SELECT 1''
     [] None installed))) = outstanding (trace installed) \<and>
   fst (executeQuery select_only env_complete failing_driver ''SELECT 1'' [] None installed) =
     Inl (DriverError ''Query execution was interrupted'')"
  using executeQuery_releases_lease [OF reachable_installed, of select_only env_complete
      sample_driver "''SELECT 1''" "[]" None]
    executeQuery_releases_lease [OF reachable_installed, of select_only env_complete
      sample_driver "''DELETE FROM t''" "[]" "Some ''shop''"]
    executeQuery_releases_lease [OF reachable_installed, of select_only env_complete
      failing_driver "''SELECT 1''" "[]" None]
  by (simp add: executeQuery_installed executeQuery_installed_rejected
      executeQuery_installed_failing)

subsection \<open>executeQuery: which calls reach the driver\<close>

lemma adds_no_refl: "adds_no Q s s"
  by (simp add: adds_no_def)

lemma adds_no_trans: "adds_no Q s s1 \<Longrightarrow> adds_no Q s1 s2 \<Longrightarrow> adds_no Q s s2"
  by (auto simp: adds_no_def)

lemma adds_no_emit: "\<not> Q ev \<Longrightarrow> adds_no Q s (emit ev s)"
  by (simp add: adds_no_def emit_def)

lemma adds_no_update:
  "adds_no Q s (s' \<lparr> pool := q \<rparr>) = adds_no Q s s'"
  "adds_no Q s (s' \<lparr> connection := k \<rparr>) = adds_no Q s s'"
  by (simp_all add: adds_no_def)

lemma createConnectionPool_adds_no:
  assumes "\<And>opts r. \<not> Q (CreatePool opts r)"
  shows "adds_no Q s (snd (createConnectionPool env drv s))"
  by (auto simp: createConnectionPool_def Let_def adds_no_refl adds_no_emit adds_no_update assms
      split: sum.splits option.splits)

lemma ensurePool_adds_no:
  assumes "\<And>opts r. \<not> Q (CreatePool opts r)"
    and "ensurePool env drv s = (r, s')"
  shows "adds_no Q s s'"
  using assms(2)
proof (cases rule: ensurePool_cases)
  case (existing p)
  then show ?thesis by (simp add: adds_no_refl)
next
  case created
  with createConnectionPool_adds_no [of Q s env drv, OF assms(1)] show ?thesis by simp
qed

lemma acquire_lease:
  assumes "acquire drv p s = (Inr c, s')"
  shows "connection s = None \<or> connection s = Some c"
  using assms by (auto simp: acquire_def split: option.splits sum.splits)

lemma acquire_held: "connection s = Some c \<Longrightarrow> acquire drv p s = (Inr c, s)"
  by (simp add: acquire_def)

lemma acquire_adds_no:
  assumes "\<And>r. connection s = None \<Longrightarrow> \<not> Q (GetConnection p r)"
    and "acquire drv p s = (r, s')"
  shows "adds_no Q s s'"
  using assms
  by (auto simp: acquire_def adds_no_refl adds_no_emit adds_no_update
      split: option.splits sum.splits)

lemma useDatabase_adds_no:
  assumes "\<And>t. \<not> Q (Query c (Text t))"
    and "useDatabase drv c db s = (r, s')"
  shows "adds_no Q s s'"
  using assms
  by (auto simp: useDatabase_def Let_def adds_no_refl adds_no_emit
      split: if_splits sum.splits)

lemma runStatement_rejected:
  "\<not> f sql \<Longrightarrow> runStatement f drv c sql params s = (Inl (Error ''Query not allowed''), s)"
  by (simp add: runStatement_def)

lemma runStatement_adds_no:
  assumes "\<And>opts ps. f sql \<Longrightarrow> \<not> Q (Query c (WithOptions opts ps))"
    and "runStatement f drv c sql params s = (r, s')"
  shows "adds_no Q s s'"
  using assms
  by (auto simp: runStatement_def Let_def adds_no_refl adds_no_emit
      split: if_splits sum.splits)

lemma releaseConnection_adds_no:
  assumes "\<And>c. connection s = Some c \<Longrightarrow> \<not> Q (Release c)"
  shows "adds_no Q s (releaseConnection s)"
  using assms
  by (auto simp: releaseConnection_def adds_no_refl adds_no_emit adds_no_update
      split: option.splits)

lemma executeQuery_adds_no:
  assumes create: "\<And>opts r. \<not> Q (CreatePool opts r)"
    and get: "\<And>p r. connection s = None \<Longrightarrow> \<not> Q (GetConnection p r)"
    and use: "\<And>c t. connection s = None \<or> connection s = Some c \<Longrightarrow> \<not> Q (Query c (Text t))"
    and run: "\<And>c opts ps. connection s = None \<or> connection s = Some c \<Longrightarrow> f sql \<Longrightarrow>
                \<not> Q (Query c (WithOptions opts ps))"
    and rel: "\<And>c. connection s = None \<or> connection s = Some c \<Longrightarrow> \<not> Q (Release c)"
  shows "adds_no Q s (snd (executeQuery f env drv sql params db s))"
proof -
  obtain r0 s0 where e: "ensurePool env drv s = (r0, s0)" by (cases "ensurePool env drv s")
  have a0: "adds_no Q s s0" by (rule ensurePool_adds_no [where Q = Q, OF create e])
  have c0: "connection s0 = connection s" by (rule ensurePool_result(1) [OF e])
  show ?thesis
  proof (cases r0)
    case (Inl err)
    with e a0 show ?thesis by (simp add: executeQuery_def)
  next
    case (Inr p)
    obtain r1 s1 where t: "tryBlock f env drv p sql params db s0 = (r1, s1)"
      by (cases "tryBlock f env drv p sql params db s0")
    have s': "snd (executeQuery f env drv sql params db s) = releaseConnection s1"
      using e Inr t by (simp add: executeQuery_def)
    have "adds_no Q s0 s1 \<and> (\<forall>c. connection s1 = Some c \<longrightarrow> \<not> Q (Release c))"
      using t
    proof (cases rule: tryBlock_cases)
      case (acquire_failed err)
      from acquire_adds_no [of s0 Q p, OF _ acquire_failed(1)] get c0
        acquire_result(5) [OF acquire_failed(1)]
      show ?thesis by simp
    next
      case (use_failed c sa err)
      from acquire_lease [OF use_failed(1)] c0
      have l: "connection s = None \<or> connection s = Some c" by simp
      have 1: "adds_no Q s0 sa"
        using acquire_adds_no [of s0 Q p, OF _ use_failed(1)] get c0 by simp
      have 2: "adds_no Q sa s1"
        using useDatabase_adds_no [of Q c, OF _ use_failed(2)] use [OF l] by simp
      have "connection s1 = Some c"
        using acquire_result(4) [OF use_failed(1)] useDatabase_result(4) [OF use_failed(2)]
        by simp
      with adds_no_trans [OF 1 2] rel [OF l] show ?thesis by simp
    next
      case (run_failed c sa sb err)
      from acquire_lease [OF run_failed(1)] c0
      have l: "connection s = None \<or> connection s = Some c" by simp
      have 1: "adds_no Q s0 sa"
        using acquire_adds_no [of s0 Q p, OF _ run_failed(1)] get c0 by simp
      have 2: "adds_no Q sa sb"
        using useDatabase_adds_no [of Q c, OF _ run_failed(2)] use [OF l] by simp
      have 3: "adds_no Q sb s1"
        using runStatement_adds_no [of f sql Q c, OF _ run_failed(3)] run [OF l] by simp
      have "connection s1 = Some c"
        using acquire_result(4) [OF run_failed(1)] useDatabase_result(4) [OF run_failed(2)]
          runStatement_result(4) [OF run_failed(3)]
        by simp
      with adds_no_trans [OF adds_no_trans [OF 1 2] 3] rel [OF l] show ?thesis by simp
    next
      case (ran c sa sb result)
      from acquire_lease [OF ran(1)] c0
      have l: "connection s = None \<or> connection s = Some c" by simp
      have 1: "adds_no Q s0 sa"
        using acquire_adds_no [of s0 Q p, OF _ ran(1)] get c0 by simp
      have 2: "adds_no Q sa sb"
        using useDatabase_adds_no [of Q c, OF _ ran(2)] use [OF l] by simp
      have 3: "adds_no Q sb s1"
        using runStatement_adds_no [of f sql Q c, OF _ ran(3)] run [OF l] by simp
      have "connection s1 = Some c"
        using acquire_result(4) [OF ran(1)] useDatabase_result(4) [OF ran(2)]
          runStatement_result(4) [OF ran(3)]
        by simp
      with adds_no_trans [OF adds_no_trans [OF 1 2] 3] rel [OF l] show ?thesis by simp
    qed
    then have "adds_no Q s0 (releaseConnection s1)"
      using adds_no_trans [OF _ releaseConnection_adds_no [of s1 Q]] by blast
    with a0 s' show ?thesis by (simp add: adds_no_trans [of Q s s0])
  qed
qed

lemma acquire_fresh:
  assumes "connection s = None" and "acquire drv p s = (r, s')"
  shows "\<exists>g. trace s' = trace s @ [GetConnection p g]"
  using assms by (auto simp: acquire_def emit_def split: sum.splits)

lemma acquire_again:
  assumes "acquire drv p s = (Inr c, s')"
  shows "connection s' = Some c \<and> acquire drv' p' s' = (Inr c, s')"
  using acquire_result(4) [OF assms] by (simp add: acquire_held)

lemma tryBlock_release_checkout:
  assumes none: "connection s0 = None"
    and t: "tryBlock f env drv p sql params db s0 = (r, s1)"
  shows "\<exists>g evs. trace (releaseConnection s1) = trace s0 @ GetConnection p g # evs \<and>
                 \<not> list_ex is_checkout evs"
proof -
  have rel: "adds_no is_checkout s1 (releaseConnection s1)"
    by (rule releaseConnection_adds_no) simp
  have "\<exists>g sa. trace sa = trace s0 @ [GetConnection p g] \<and> adds_no is_checkout sa s1"
    using t
  proof (cases rule: tryBlock_cases)
    case (acquire_failed e)
    from acquire_fresh [OF none acquire_failed(1)] show ?thesis
      by (blast intro: adds_no_refl)
  next
    case (use_failed c sa e)
    have "adds_no is_checkout sa s1"
      by (rule useDatabase_adds_no [where Q = is_checkout, OF _ use_failed(2)]) simp
    with acquire_fresh [OF none use_failed(1)] show ?thesis by blast
  next
    case (run_failed c sa sb e)
    have "adds_no is_checkout sa sb"
      by (rule useDatabase_adds_no [where Q = is_checkout, OF _ run_failed(2)]) simp
    moreover have "adds_no is_checkout sb s1"
      by (rule runStatement_adds_no [where Q = is_checkout, OF _ run_failed(3)]) simp
    ultimately have "adds_no is_checkout sa s1" by (rule adds_no_trans)
    with acquire_fresh [OF none run_failed(1)] show ?thesis by blast
  next
    case (ran c sa sb result)
    have "adds_no is_checkout sa sb"
      by (rule useDatabase_adds_no [where Q = is_checkout, OF _ ran(2)]) simp
    moreover have "adds_no is_checkout sb s1"
      by (rule runStatement_adds_no [where Q = is_checkout, OF _ ran(3)]) simp
    ultimately have "adds_no is_checkout sa s1" by (rule adds_no_trans)
    with acquire_fresh [OF none ran(1)] show ?thesis by blast
  qed
  then obtain g sa where tr: "trace sa = trace s0 @ [GetConnection p g]"
    and a: "adds_no is_checkout sa s1" by blast
  from adds_no_trans [OF a rel]
  obtain evs where "trace (releaseConnection s1) = trace sa @ evs" "\<not> list_ex is_checkout evs"
    by (auto simp: adds_no_def)
  with tr show ?thesis by auto
qed


lemma executeQuery_twice:
  "executeQuery select_only env_complete sample_driver ''SELECT 1'' [] None
     (snd (executeQuery select_only env_complete sample_driver ''SELECT 1'' [] None installed)) =
     (Inr \<lparr> rows = Arr [Arr [Obj [(''1'', Num (Finite 1))]], sample_columns],
            fields_out = Arr [] \<rparr>,
      \<lparr> pool = Some 0, connection = None,
        trace = [CreatePool sample_options (Some 0), GetConnection 0 (Some 1),
                 Query 1 (WithOptions \<lparr> sql_text = ''SELECT 1'', namedPlaceholders = True,
                                        metaAsArray = True, timeout = 10000 \<rparr> []),
                 Release 1, GetConnection 0 (Some 4),
                 Query 4 (WithOptions \<lparr> sql_text = ''SELECT 1'', namedPlaceholders = True,
                                        metaAsArray = True, timeout = 10000 \<rparr> []),
                 Release 4] \<rparr>)"
  by (simp add: executeQuery_installed)
    (simp add: executeQuery_def ensurePool_def tryBlock_def acquire_def useDatabase_def
      runStatement_def buildResult_def releaseConnection_def emit_def
      sample_eval select_only_def falsy_def DEFAULT_TIMEOUT_def DEFAULT_ROW_LIMIT_def Let_def)

text \<open>
  C3, as stated, fails: of two calls made one after the other the second finds no lease
  held and takes one of its own from the pool, so the two calls make two checkouts and no
  lease is used twice.
\<close>

theorem executeQuery_no_reuse_counterexample:
  "connection (snd (executeQuery select_only env_complete sample_driver ''SELECT 1'' [] None
     installed)) = None \<and>
   trace (snd (executeQuery select_only env_complete sample_driver ''SELECT 1'' [] None
     (snd (executeQuery select_only env_complete sample_driver ''SELECT 1'' [] None
        installed)))) =
     [CreatePool sample_options (Some 0), GetConnection 0 (Some 1),
      Query 1 (WithOptions \<lparr> sql_text = ''SELECT 1'', namedPlaceholders = True,
                             metaAsArray = True, timeout = 10000 \<rparr> []),
      Release 1, GetConnection 0 (Some 4),
      Query 4 (WithOptions \<lparr> sql_text = ''SELECT 1'', namedPlaceholders = True,
                             metaAsArray = True, timeout = 10000 \<rparr> []),
      Release 4]"
  by (simp add: executeQuery_twice) (simp add: executeQuery_installed)

text \<open>
  C3, amended. The acquisition step returns a lease that is held and checks out nothing:
  applied once more to the state it has just left, it returns the same lease and that
  state. In a sequential history this is never met at the start of a call: no lease is held
  there, every call that has a pool makes exactly one checkout, its first call to the
  driver after the pool, and the lease it got is released before it returns, so calls made
  one after the other do not share a lease.
\<close>

theorem executeQuery_checks_out_each_call:
  assumes "reachable s"
  shows "connection s = None \<and>
         connection (snd (executeQuery isAlloowedQuery env drv sql params db s)) = None \<and>
         (ensurePool env drv s = (Inr p, s0) \<longrightarrow>
            (\<exists>g evs. trace (snd (executeQuery isAlloowedQuery env drv sql params db s)) =
                        trace s0 @ GetConnection p g # evs \<and>
                      \<not> list_ex is_checkout evs)) \<and>
         (ensurePool env drv s = (Inr p, s0) \<and> acquire drv p s0 = (Inr c, s1) \<longrightarrow>
            connection s1 = Some c \<and> acquire drv' p' s1 = (Inr c, s1))"
proof -
  from reachable_invariant [OF assms] have none: "connection s = None" by simp
  obtain r s' where q: "executeQuery isAlloowedQuery env drv sql params db s = (r, s')"
    by (cases "executeQuery isAlloowedQuery env drv sql params db s")
  from executeQuery_result(3) [OF q none]
  have after: "connection (snd (executeQuery isAlloowedQuery env drv sql params db s)) = None"
    by (simp add: q)
  have once: "\<exists>g evs. trace (snd (executeQuery isAlloowedQuery env drv sql params db s)) =
                        trace s0 @ GetConnection p g # evs \<and>
                      \<not> list_ex is_checkout evs"
    if e: "ensurePool env drv s = (Inr p, s0)"
  proof -
    from ensurePool_result(1) [OF e] none have none0: "connection s0 = None" by simp
    obtain r1 t1 where t: "tryBlock isAlloowedQuery env drv p sql params db s0 = (r1, t1)"
      by (cases "tryBlock isAlloowedQuery env drv p sql params db s0")
    from e t have "snd (executeQuery isAlloowedQuery env drv sql params db s) =
        releaseConnection t1"
      by (simp add: executeQuery_def)
    with tryBlock_release_checkout [OF none0 t] show ?thesis
      by simp
  qed
  have again: "connection s1 = Some c \<and> acquire drv' p' s1 = (Inr c, s1)"
    if a: "acquire drv p s0 = (Inr c, s1)"
    by (rule acquire_again [OF a])
  from none after once again show ?thesis
    by blast
qed

lemma reachable_after_first:
  "reachable (snd (executeQuery select_only env_complete sample_driver ''SELECT 1'' [] None
     installed))"
  by (rule reachable_execute [OF reachable_installed])

theorem executeQuery_checks_out_each_call_witness:
  "connection installed = None \<and>
   trace (snd (executeQuery select_only env_complete sample_driver ''SELECT 1'' [] None
     installed)) =
     trace installed @ GetConnection 0 (Some 1) #
       [Query 1 (WithOptions \<lparr> sql_text = ''SELECT 1'', namedPlaceholders = True,
                               metaAsArray = True, timeout = 10000 \<rparr> []),
        Release 1] \<and>
   connection (snd (executeQuery select_only env_complete sample_driver ''SELECT 1'' [] None
     installed)) = None \<and>
   trace (snd (executeQuery select_only env_complete sample_driver ''SELECT 1'' [] None
     (snd (executeQuery select_only env_complete sample_driver ''SELECT 1'' [] None
        installed)))) =
     trace (snd (executeQuery select_only env_complete sample_driver ''SELECT 1'' [] None
       installed)) @ GetConnection 0 (Some 4) #
       [Query 4 (WithOptions \<lparr> sql_text = ''SELECT 1'', namedPlaceholders = True,
                               metaAsArray = True, timeout = 10000 \<rparr> []),
        Release 4] \<and>
   acquire sample_driver 0 installed = (Inr 1, leased) \<and>
   connection leased = Some 1 \<and>
   acquire failing_driver 7 leased = (Inr 1, leased)"
proof -
  let ?first = "snd (executeQuery select_only env_complete sample_driver ''SELECT 1'' [] None
     installed)"
  have e: "ensurePool env_complete sample_driver installed = (Inr 0, installed)"
    by (simp add: ensurePool_def installed_def)
  have a: "acquire sample_driver 0 installed = (Inr 1, leased)"
    by (simp add: acquire_def installed_def leased_def sample_eval emit_def)
  note w = executeQuery_checks_out_each_call [OF reachable_installed, of select_only
      env_complete sample_driver "''SELECT 1''" "[]" None 0 installed 1 leased failing_driver 7]
  from w have none: "connection installed = None"
    and after: "connection ?first = None"
    by blast+
  from w e obtain g evs where one: "trace ?first = trace installed @ GetConnection 0 g # evs"
    and "\<not> list_ex is_checkout evs"
    by blast
  from w e a have again: "connection leased = Some 1"
    "acquire failing_driver 7 leased = (Inr 1, leased)"
    by blast+
  have t1: "trace ?first = trace installed @ GetConnection 0 (Some 1) #
       [Query 1 (WithOptions \<lparr> sql_text = ''SELECT 1'', namedPlaceholders = True,
                               metaAsArray = True, timeout = 10000 \<rparr> []),
        Release 1]"
    using one by (simp add: executeQuery_installed) (simp add: installed_def)
  have e2: "ensurePool env_complete sample_driver ?first = (Inr 0, ?first)"
    by (simp add: executeQuery_installed ensurePool_def)
  note w2 = executeQuery_checks_out_each_call [OF reachable_after_first, of select_only
      env_complete sample_driver "''SELECT 1''" "[]" None 0 ?first 1 leased failing_driver 7]
  from w2 e2 obtain g2 evs2 where
    two: "trace (snd (executeQuery select_only env_complete sample_driver ''SELECT 1'' [] None
        ?first)) = trace ?first @ GetConnection 0 g2 # evs2"
    by blast
  have t2: "trace (snd (executeQuery select_only env_complete sample_driver ''SELECT 1'' [] None
        ?first)) = trace ?first @ GetConnection 0 (Some 4) #
       [Query 4 (WithOptions \<lparr> sql_text = ''SELECT 1'', namedPlaceholders = True,
                               metaAsArray = True, timeout = 10000 \<rparr> []),
        Release 4]"
    using two by (simp add: executeQuery_twice) (simp add: executeQuery_installed)
  from none t1 after t2 a again show ?thesis
    by blast
qed

text \<open>
  C1, as stated, fails: the statement is rejected, and before the rejection a lease was
  taken from the pool and the database switch was sent on it.
\<close>

theorem executeQuery_rejected_counterexample:
  "\<not> select_only ''DELETE FROM t'' \<and>
   executeQuery select_only env_complete sample_driver ''DELETE FROM t'' [] (Some ''shop'')
     installed =
     (Inl (Error ''Query not allowed''),
      \<lparr> pool = Some 0, connection = None,
        trace = [CreatePool sample_options (Some 0), GetConnection 0 (Some 1),
                 Query 1 (Text ''USE `shop`''), Release 1] \<rparr>)"
  by (simp add: executeQuery_installed_rejected) (simp add: select_only_def)

text \<open>
  C1, amended. A call whose statement the validator rejects fails, and the statement itself
  is never sent to the driver. The validator is asked after the pool was looked for, the
  lease taken or used again and the database switch sent: when those three steps succeed the
  error is \<^verbatim>\<open>Query not allowed\<close> and the lease is released before the call returns.
\<close>

theorem executeQuery_rejected:
  assumes "\<not> isAlloowedQuery sql"
  shows "(\<exists>e. fst (executeQuery isAlloowedQuery env drv sql params db s) = Inl e) \<and>
         adds_no is_statement s (snd (executeQuery isAlloowedQuery env drv sql params db s)) \<and>
         (ensurePool env drv s = (Inr p, s0) \<and> acquire drv p s0 = (Inr c, s1) \<and>
          useDatabase drv c db s1 = (Inr (), s2) \<longrightarrow>
            executeQuery isAlloowedQuery env drv sql params db s =
              (Inl (Error ''Query not allowed''), releaseConnection s2))"
proof (intro conjI impI)
  show "\<exists>e. fst (executeQuery isAlloowedQuery env drv sql params db s) = Inl e"
  proof -
    obtain r0 s0 where e: "ensurePool env drv s = (r0, s0)" by (cases "ensurePool env drv s")
    show ?thesis
    proof (cases r0)
      case (Inl err)
      with e show ?thesis by (simp add: executeQuery_def)
    next
      case (Inr q)
      obtain r1 t1 where t: "tryBlock isAlloowedQuery env drv q sql params db s0 = (r1, t1)"
        by (cases "tryBlock isAlloowedQuery env drv q sql params db s0")
      have "\<exists>e. r1 = Inl e"
        using t
      proof (cases rule: tryBlock_cases)
        case (ran c sa sb result)
        with runStatement_rejected [where f = isAlloowedQuery and sql = sql, OF assms, of drv c params sb]
        show ?thesis by simp
      qed simp_all
      with e Inr t show ?thesis by (auto simp: executeQuery_def)
    qed
  qed
  show "adds_no is_statement s (snd (executeQuery isAlloowedQuery env drv sql params db s))"
    by (rule executeQuery_adds_no) (simp_all add: assms)
next
  assume "ensurePool env drv s = (Inr p, s0) \<and> acquire drv p s0 = (Inr c, s1) \<and>
          useDatabase drv c db s1 = (Inr (), s2)"
  then show "executeQuery isAlloowedQuery env drv sql params db s =
              (Inl (Error ''Query not allowed''), releaseConnection s2)"
    by (simp add: executeQuery_def tryBlock_def
        runStatement_rejected [where f = isAlloowedQuery and sql = sql, OF assms])
qed

theorem executeQuery_rejected_witness:
  "ensurePool env_complete sample_driver installed = (Inr 0, installed) \<and>
   acquire sample_driver 0 installed =
     (Inr 1, \<lparr> pool = Some 0, connection = Some 1,
               trace = [CreatePool sample_options (Some 0), GetConnection 0 (Some 1)] \<rparr>) \<and>
   useDatabase sample_driver 1 (Some ''shop'')
     \<lparr> pool = Some 0, connection = Some 1,
       trace = [CreatePool sample_options (Some 0), GetConnection 0 (Some 1)] \<rparr> =
     (Inr (), \<lparr> pool = Some 0, connection = Some 1,
                trace = [CreatePool sample_options (Some 0), GetConnection 0 (Some 1),
                         Query 1 (Text ''USE `shop`'')] \<rparr>) \<and>
   executeQuery select_only env_complete sample_driver ''DELETE FROM t'' [] (Some ''shop'')
     installed =
     (Inl (Error ''Query not allowed''),
      releaseConnection
        \<lparr> pool = Some 0, connection = Some 1,
          trace = [CreatePool sample_options (Some 0), GetConnection 0 (Some 1),
                   Query 1 (Text ''USE `shop`'')] \<rparr>) \<and>
   adds_no is_statement installed
     (snd (executeQuery select_only env_complete sample_driver ''DELETE FROM t'' []
        (Some ''shop'') installed))"
proof -
  let ?s1 = "\<lparr> pool = Some 0, connection = Some 1,
               trace = [CreatePool sample_options (Some 0), GetConnection 0 (Some 1)] \<rparr>"
  let ?s2 = "\<lparr> pool = Some 0, connection = Some 1,
               trace = [CreatePool sample_options (Some 0), GetConnection 0 (Some 1),
                        Query 1 (Text ''USE `shop`'')] \<rparr>"
  have rej: "\<not> select_only ''DELETE FROM t''"
    by (simp add: select_only_def)
  have e: "ensurePool env_complete sample_driver installed = (Inr 0, installed)"
    by (simp add: ensurePool_def installed_def)
  have a: "acquire sample_driver 0 installed = (Inr 1, ?s1)"
    by (simp add: acquire_def installed_def sample_eval emit_def)
  have u: "useDatabase sample_driver 1 (Some ''shop'') ?s1 = (Inr (), ?s2)"
    by (simp add: useDatabase_def falsy_def sample_eval emit_def Let_def)
  note w = executeQuery_rejected [where isAlloowedQuery = select_only
      and sql = "''DELETE FROM t''", OF rej, of env_complete sample_driver "[]" "Some ''shop''"
      installed 0 installed 1 ?s1 ?s2]
  from w e a u
  have q: "executeQuery select_only env_complete sample_driver ''DELETE FROM t'' []
      (Some ''shop'') installed = (Inl (Error ''Query not allowed''), releaseConnection ?s2)"
    by blast
  from w
  have n: "adds_no is_statement installed
     (snd (executeQuery select_only env_complete sample_driver ''DELETE FROM t'' []
        (Some ''shop'') installed))"
    by blast
  from e a u q n show ?thesis
    by blast
qed

text \<open>
  C4 does not hold of the code. \<open>endConnection\<close> ends the pool and leaves the variable
  \<^verbatim>\<open>pool\<close> as it is, so the next \<open>executeQuery\<close> makes no pool and asks the ended
  one for a lease: with a driver that refuses a lease from an ended pool the call fails.
\<close>

theorem endConnection_keeps_closed_pool:
  "pool (endConnection s) = pool s \<and>
   endConnection installed =
     \<lparr> pool = Some 0, connection = None,
       trace = [CreatePool sample_options (Some 0), PoolEnd 0] \<rparr> \<and>
   executeQuery select_only env_complete sample_driver ''SELECT 1'' [] None
     (endConnection installed) =
     (Inl (DriverError ''pool is closed''),
      \<lparr> pool = Some 0, connection = None,
        trace = [CreatePool sample_options (Some 0), PoolEnd 0, GetConnection 0 None] \<rparr>)"
proof (intro conjI)
  show "pool (endConnection s) = pool s"
    by (rule endConnection_result(1))
  show e: "endConnection installed =
     \<lparr> pool = Some 0, connection = None,
       trace = [CreatePool sample_options (Some 0), PoolEnd 0] \<rparr>"
    by (simp add: endConnection_def installed_def emit_def)
  show "executeQuery select_only env_complete sample_driver ''SELECT 1'' [] None
     (endConnection installed) =
     (Inl (DriverError ''pool is closed''),
      \<lparr> pool = Some 0, connection = None,
        trace = [CreatePool sample_options (Some 0), PoolEnd 0, GetConnection 0 None] \<rparr>)"
    by (simp add: e executeQuery_def ensurePool_def tryBlock_def acquire_def
        releaseConnection_def emit_def sample_eval)
qed

subsection \<open>executeQuery: the row limit\<close>

lemma bit_length_le: "a < 2 ^ n \<Longrightarrow> bit_length a \<le> n"
proof (induction n arbitrary: a)
  case 0
  then show ?case by (simp add: bit_length.simps)
next
  case (Suc n)
  show ?case
  proof (cases "a \<le> 0")
    case True
    then show ?thesis by (simp add: bit_length.simps)
  next
    case False
    from Suc.prems have "a div 2 < 2 ^ n" by simp
    from Suc.IH [OF this] False show ?thesis
      by (subst bit_length.simps) simp
  qed
qed

lemma Number_exact: "\<bar>v\<bar> \<le> MAX_SAFE \<Longrightarrow> Number v = Finite (of_int v)"
proof -
  assume "\<bar>v\<bar> \<le> MAX_SAFE"
  then have b: "\<bar>v\<bar> < 2 ^ 53" by (simp add: MAX_SAFE_def)
  from bit_length_le [OF b] have n: "nearest_double \<bar>v\<bar> = \<bar>v\<bar>"
    by (simp add: nearest_double_def)
  have "\<bar>v\<bar> < 2 ^ 1024"
    using b by (rule less_trans) simp
  with n show ?thesis by (auto simp: Number_def Let_def)
qed

lemma executeQuery_ran:
  assumes "ensurePool env drv s = (Inr p, s0)"
    and "acquire drv p s0 = (Inr c, s1)"
    and "useDatabase drv c db s1 = (Inr (), s2)"
    and "f sql"
    and "query drv (trace s2) c
           (WithOptions \<lparr> sql_text = sql, namedPlaceholders = True, metaAsArray = True,
                          timeout = 10000 \<rparr> params) = Inr result"
  shows "executeQuery f env drv sql params db s =
     (buildResult env params result,
      releaseConnection
        (emit (Query c (WithOptions \<lparr> sql_text = sql, namedPlaceholders = True,
                                      metaAsArray = True, timeout = 10000 \<rparr> params)) s2))"
  using assms
  by (simp add: executeQuery_def tryBlock_def runStatement_def DEFAULT_TIMEOUT_def Let_def)

lemma normalized_spec_numbered_row:
  "i < 1500 \<Longrightarrow> normalized_spec (numbered_row i) = numbered_number i"
  by (simp add: numbered_row_def numbered_number_def Number_exact MAX_SAFE_def)

lemma buildResult_pair:
  "buildResult env [] \<lparr> resolved = Arr [rs, cols], meta = None \<rparr> =
     (case normalizeRows env [rs, cols] of
        Inl e \<Rightarrow> Inl e
      | Inr ys \<Rightarrow> Inr \<lparr> rows = Arr ys, fields_out = Arr [] \<rparr>)"
  by (simp add: buildResult_def DEFAULT_ROW_LIMIT_def Let_def split: sum.splits)

lemma executeQuery_many_rows:
  "fst (executeQuery select_only env_complete many_rows_driver ''SELECT id FROM t'' [] None
     installed) = buildResult env_complete [] many_rows"
proof -
  have e: "ensurePool env_complete many_rows_driver installed = (Inr 0, installed)"
    by (simp add: ensurePool_def installed_def)
  have a: "acquire many_rows_driver 0 installed = (Inr 1, leased)"
    by (simp add: acquire_def installed_def leased_def many_rows_driver_def
        sample_getConnection_def pool_ended_def emit_def)
  have u: "useDatabase many_rows_driver 1 None leased = (Inr (), leased)"
    by (simp add: useDatabase_def falsy_def)
  have ok: "select_only ''SELECT id FROM t''"
    by (simp add: select_only_def)
  have qr: "query many_rows_driver (trace leased) 1
      (WithOptions \<lparr> sql_text = ''SELECT id FROM t'', namedPlaceholders = True,
                     metaAsArray = True, timeout = 10000 \<rparr> []) = Inr many_rows"
    by (simp add: many_rows_driver_def many_rows_query_def)
  from executeQuery_ran [where f = select_only and sql = "''SELECT id FROM t''",
      OF e a u ok qr]
  show ?thesis by simp
qed

text \<open>
  C6 does not hold of the code. The statement is sent with \<^verbatim>\<open>metaAsArray: true\<close>, and
  the answer to such a request is the pair \<^verbatim>\<open>[rows, meta]\<close>. The row limit is tested on
  that pair, whose length is 2, so nothing is cut: whatever the rows are, the pair is
  normalised whole, and the field list is empty, the pair having no \<^verbatim>\<open>meta\<close>
  property. Of 1500 rows all 1500 come back.
\<close>

theorem executeQuery_row_limit_missed:
  "buildResult env [] \<lparr> resolved = Arr [rs, cols], meta = None \<rparr> =
     (case normalizeRows env [rs, cols] of
        Inl e \<Rightarrow> Inl e
      | Inr ys \<Rightarrow> Inr \<lparr> rows = Arr ys, fields_out = Arr [] \<rparr>) \<and>
   fst (executeQuery select_only env_complete many_rows_driver ''SELECT id FROM t'' [] None
     installed) =
     Inr \<lparr> rows = Arr [Arr (map numbered_number [0..<1500]), sample_columns],
           fields_out = Arr [] \<rparr> \<and>
   length (map numbered_number [0..<1500]) = 1500"
proof (intro conjI)
  show "buildResult env [] \<lparr> resolved = Arr [rs, cols], meta = None \<rparr> =
     (case normalizeRows env [rs, cols] of
        Inl e \<Rightarrow> Inl e
      | Inr ys \<Rightarrow> Inr \<lparr> rows = Arr ys, fields_out = Arr [] \<rparr>)"
    by (rule buildResult_pair)
  have off: "first_refused env_complete ns = None" for ns
    by (simp add: first_refused_unchecked env_complete_def)
  have cols: "normalized_spec sample_columns = sample_columns"
    by (simp add: sample_columns_def)
  have "normalizeRows env_complete [Arr (map numbered_row [0..<1500]), sample_columns] =
      Inr [Arr (map numbered_number [0..<1500]), sample_columns]"
    by (simp add: normalizeRows_refused off normalized_spec_numbered_row cols
        del: upt_rec_numeral)
  then show "fst (executeQuery select_only env_complete many_rows_driver ''SELECT id FROM t''
      [] None installed) =
     Inr \<lparr> rows = Arr [Arr (map numbered_number [0..<1500]), sample_columns],
           fields_out = Arr [] \<rparr>"
    by (simp add: executeQuery_many_rows many_rows_def buildResult_pair del: upt_rec_numeral)
  show "length (map numbered_number [0..<1500]) = 1500"
    by simp
qed

end
